theory Spec2Isabelle
  imports
    Main
    "HOL-Library.Sublist"
    "HOL-Library.Char_ord"
    "HOL-Library.List_Lexorder"
    "HOL-Library.AList"
begin

section \<open>Text: the Python and SQLite string operations used by app.py\<close>

text \<open>
  Python \<open>str\<close> values and SQLite TEXT values are modelled by \<open>string\<close>. The development
  covers ASCII text, the characters 0x00-0x7F, and the operations below are meant to be
  exact there. Beyond ASCII they are not: \<open>str.lower\<close>, \<open>str.capitalize\<close>, \<open>str.strip\<close>
  and \<open>int\<close> know the cased letters, spaces and digits of all of Unicode, while SQLite's
  \<open>LOWER\<close> and \<open>LIKE\<close> fold A-Z only. A statement whose truth depends on how letters are
  folded carries \<open>ascii_text\<close> among its hypotheses.
\<close>

definition ascii_text :: "string \<Rightarrow> bool" where
  "ascii_text s = (\<forall>c \<in> set s. \<not> digit7 c)"

definition ascii_uppercase :: string where
  "ascii_uppercase = ''ABCDEFGHIJKLMNOPQRSTUVWXYZ''"

definition ascii_lowercase :: string where
  "ascii_lowercase = ''abcdefghijklmnopqrstuvwxyz''"

definition to_lower :: "char \<Rightarrow> char" where
  "to_lower c =
     (case map_of (zip ascii_uppercase ascii_lowercase) c of None \<Rightarrow> c | Some l \<Rightarrow> l)"

definition to_upper :: "char \<Rightarrow> char" where
  "to_upper c =
     (case map_of (zip ascii_lowercase ascii_uppercase) c of None \<Rightarrow> c | Some u \<Rightarrow> u)"

text \<open>\<open>str.lower()\<close>.\<close>

definition py_lower :: "string \<Rightarrow> string" where
  "py_lower s = map to_lower s"

text \<open>\<open>str.capitalize()\<close>: first character upper-cased, the rest lower-cased.\<close>

definition py_capitalize :: "string \<Rightarrow> string" where
  "py_capitalize s = (case s of [] \<Rightarrow> [] | c # cs \<Rightarrow> to_upper c # map to_lower cs)"

text \<open>
  \<open>str.isspace()\<close> on an ASCII character: tab, line feed, vertical tab, form feed,
  carriage return, the four separators 0x1C-0x1F, and the space.
\<close>

definition py_whitespace :: string where
  "py_whitespace =
     [CHR 0x09, CHR 0x0A, CHR 0x0B, CHR 0x0C, CHR 0x0D,
      CHR 0x1C, CHR 0x1D, CHR 0x1E, CHR 0x1F, CHR 0x20]"

definition py_isspace :: "char \<Rightarrow> bool" where
  "py_isspace c = (c \<in> set py_whitespace)"

text \<open>\<open>str.strip()\<close>: leading and trailing whitespace removed.\<close>

definition py_strip :: "string \<Rightarrow> string" where
  "py_strip s = rev (dropWhile py_isspace (rev (dropWhile py_isspace s)))"

text \<open>
  \<open>int(value)\<close> on an ASCII string, base 10: surrounding whitespace is skipped, one sign
  is allowed, then decimal digits, where single underscores may stand between two
  digits. The whitespace skipped is that of C's \<open>isspace\<close> (tab, line feed, vertical tab,
  form feed, carriage return, space): unlike \<open>str.strip\<close>, \<open>int\<close> does not skip the
  separators 0x1C-0x1F. Anything else raises ValueError, modelled as \<open>None\<close>; so does a
  number of more than \<open>sys.int_max_str_digits\<close> digits (4300 unless the program changes
  it, and app.py does not).
\<close>

definition c_whitespace :: string where
  "c_whitespace = [CHR 0x09, CHR 0x0A, CHR 0x0B, CHR 0x0C, CHR 0x0D, CHR 0x20]"

definition c_isspace :: "char \<Rightarrow> bool" where
  "c_isspace c = (c \<in> set c_whitespace)"

definition int_strip :: "string \<Rightarrow> string" where
  "int_strip s = rev (dropWhile c_isspace (rev (dropWhile c_isspace s)))"

definition int_max_str_digits :: nat where
  "int_max_str_digits = 4300"

definition digit_of :: "char \<Rightarrow> int option" where
  "digit_of c = map_of (zip ''0123456789'' [0, 1, 2, 3, 4, 5, 6, 7, 8, 9]) c"

fun digits_value :: "bool \<Rightarrow> int \<Rightarrow> string \<Rightarrow> int option" where
  "digits_value prev_digit acc [] = (if prev_digit then Some acc else None)"
| "digits_value prev_digit acc (c # cs) =
     (if c = CHR ''_''
      then (if prev_digit then digits_value False acc cs else None)
      else (case digit_of c of
              None \<Rightarrow> None
            | Some d \<Rightarrow> digits_value True (10 * acc + d) cs))"

definition py_int :: "string \<Rightarrow> int option" where
  "py_int s =
     (case int_strip s of
        [] \<Rightarrow> None
      | c # cs \<Rightarrow>
          (let negative = (c = CHR ''-'');
               digits = (if c = CHR ''+'' \<or> c = CHR ''-'' then cs else c # cs)
           in if length (filter (\<lambda>d. d \<noteq> CHR ''_'') digits) > int_max_str_digits
              then None
              else map_option (\<lambda>n. if negative then - n else n)
                     (digits_value False 0 digits)))"

text \<open>
  \<open>safe_int\<close> (app.py, lines 104-108): \<open>int(value)\<close>, with TypeError (the form field is
  missing, \<open>value\<close> is \<open>None\<close>) and ValueError (the text is not a number) turned into
  \<open>None\<close>.
\<close>

definition safe_int :: "string option \<Rightarrow> int option" where
  "safe_int v = (case v of None \<Rightarrow> None | Some s \<Rightarrow> py_int s)"

text \<open>Python truth values of an optional string and of an optional integer.\<close>

definition truthy :: "string option \<Rightarrow> bool" where
  "truthy v = (case v of None \<Rightarrow> False | Some s \<Rightarrow> s \<noteq> [])"

definition truthy_int :: "int option \<Rightarrow> bool" where
  "truthy_int v = (case v of None \<Rightarrow> False | Some n \<Rightarrow> n \<noteq> 0)"

text \<open>\<open>x or 0\<close> on the result of \<open>safe_int\<close>.\<close>

definition or_zero :: "int option \<Rightarrow> int" where
  "or_zero v = (case v of None \<Rightarrow> 0 | Some n \<Rightarrow> n)"

text \<open>\<open>request.form.get(key, '')\<close> and \<open>request.form.get(key) or ''\<close>.\<close>

definition get_or_empty :: "(string \<rightharpoonup> string) \<Rightarrow> string \<Rightarrow> string" where
  "get_or_empty m k = (case m k of None \<Rightarrow> [] | Some s \<Rightarrow> s)"

subsection \<open>SQLite\<close>

text \<open>SQLite's \<open>LOWER(X)\<close>: ASCII letters only.\<close>

definition sql_lower :: "string \<Rightarrow> string" where
  "sql_lower s = map to_lower s"

text \<open>
  SQLite's \<open>patternCompare\<close> with the settings of LIKE: \<open>%\<close> in the pattern matches any
  run of characters, \<open>_\<close> matches any one character, every other character matches
  itself up to the case of ASCII letters. There is no escape character unless the
  statement names one, and the statements of app.py name none.
\<close>

fun pattern_compare :: "string \<Rightarrow> string \<Rightarrow> bool" where
  "pattern_compare [] s = (s = [])"
| "pattern_compare (p # ps) s =
     (if p = CHR ''%''
      then pattern_compare ps s
           \<or> (case s of [] \<Rightarrow> False | _ # t \<Rightarrow> pattern_compare (p # ps) t)
      else (case s of
              [] \<Rightarrow> False
            | c # t \<Rightarrow> (p = CHR ''_'' \<or> to_lower p = to_lower c) \<and> pattern_compare ps t))"

text \<open>
  The errors SQLite raises while it evaluates the statements of app.py; the sqlite3 module
  turns them into OperationalError.
\<close>

datatype sql_error = PatternTooComplex

text \<open>
  \<open>X LIKE P\<close>: a pattern of more than SQLITE_MAX_LIKE_PATTERN_LENGTH bytes (50000
  unless changed) is refused with "LIKE or GLOB pattern too complex"; otherwise the
  pattern and the text are read as C strings, each up to its first NUL character.
\<close>

definition like_pattern_length :: nat where
  "like_pattern_length = 50000"

definition until_nul :: "string \<Rightarrow> string" where
  "until_nul s = takeWhile (\<lambda>c. c \<noteq> CHR 0x00) s"

definition sql_like :: "string \<Rightarrow> string \<Rightarrow> sql_error + bool" where
  "sql_like p s =
     (if length p > like_pattern_length then Inl PatternTooComplex
      else Inr (pattern_compare (until_nul p) (until_nul s)))"

text \<open>
  \<open>A OR B\<close> and \<open>A AND B\<close> on operands without NULL, evaluated from the left: the right
  operand is not evaluated when the left one decides, and an error ends the evaluation.
\<close>

definition sql_or :: "sql_error + bool \<Rightarrow> sql_error + bool \<Rightarrow> sql_error + bool" where
  "sql_or a b = (case a of Inl e \<Rightarrow> Inl e | Inr x \<Rightarrow> if x then Inr True else b)"

definition sql_and :: "sql_error + bool \<Rightarrow> sql_error + bool \<Rightarrow> sql_error + bool" where
  "sql_and a b = (case a of Inl e \<Rightarrow> Inl e | Inr x \<Rightarrow> if x then b else Inr False)"

text \<open>
  A WHERE clause made of terms joined by AND, on one row; and a SELECT over a table with
  such a clause, which fails with the first error.
\<close>

fun where_all :: "('r \<Rightarrow> sql_error + bool) list \<Rightarrow> 'r \<Rightarrow> sql_error + bool" where
  "where_all [] row = Inr True"
| "where_all (clause # clauses) row = sql_and (clause row) (where_all clauses row)"

fun sql_select :: "('r \<Rightarrow> sql_error + bool) \<Rightarrow> 'r list \<Rightarrow> sql_error + 'r list" where
  "sql_select w [] = Inr []"
| "sql_select w (row # rows) =
     (case w row of
        Inl e \<Rightarrow> Inl e
      | Inr keep \<Rightarrow>
          (case sql_select w rows of
             Inl e \<Rightarrow> Inl e
           | Inr kept \<Rightarrow> Inr (if keep then row # kept else kept)))"

text \<open>\<open>MAX\<close> over a group; the maximum of no rows is NULL.\<close>

fun sql_max :: "'a::linorder list \<Rightarrow> 'a option" where
  "sql_max [] = None"
| "sql_max (x # xs) = Some (fold max xs x)"

text \<open>
  \<open>ORDER BY key DESC\<close>. SQLite fixes no order among rows with equal keys; the model
  keeps them in table order.
\<close>

definition order_by_desc :: "('a \<Rightarrow> 'k::linorder) \<Rightarrow> 'a list \<Rightarrow> 'a list" where
  "order_by_desc f rows = rev (sort_key f (rev rows))"

text \<open>
  The sqlite3 module binds a Python \<open>int\<close> as a 64-bit INTEGER and raises OverflowError
  for a value outside that range.
\<close>

definition fits_int64 :: "int \<Rightarrow> bool" where
  "fits_int64 n = (- (2 ^ 63) \<le> n \<and> n < 2 ^ 63)"

section \<open>Data model: the four tables of \<open>ensure_tables\<close>\<close>

text \<open>
  A column declared NOT NULL is a plain field, a nullable column an \<open>option\<close>. The
  timestamps \<open>created_at\<close> and \<open>updated_at\<close> are filled by \<open>DEFAULT CURRENT_TIMESTAMP\<close> in
  every INSERT of the program (none names these columns), so they are plain TEXT.
\<close>

record user =
  u_id :: int
  u_name :: string
  u_email :: string
  u_phone :: "string option"
  password_hash :: string
  u_role :: string
  u_created_at :: string

record car =
  c_id :: int
  brand :: string
  model :: string
  year :: int
  price :: int
  mileage :: "int option"
  fuel_type :: "string option"
  country :: string
  image_url :: "string option"
  description :: "string option"

record lead =
  l_id :: int
  l_name :: string
  l_phone :: string
  l_email :: "string option"
  l_car_id :: "int option"
  preferred_brand :: "string option"
  preferred_model :: "string option"
  l_country :: "string option"
  budget :: "int option"
  l_comment :: "string option"
  l_created_at :: string
  l_user_id :: "int option"

record tracking_event =
  t_id :: int
  car_id :: int
  status :: string
  location :: string
  eta :: "string option"
  comment :: "string option"
  updated_at :: string

text \<open>
  The database: each table in rowid order, and the \<open>sqlite_sequence\<close> counter that
  AUTOINCREMENT keeps per table.
\<close>

record database =
  users :: "user list"
  cars :: "car list"
  leads :: "lead list"
  tracking_events :: "tracking_event list"
  users_seq :: int
  cars_seq :: int
  leads_seq :: int
  tracking_events_seq :: int

text \<open>
  The rowid AUTOINCREMENT gives a new row: one more than the largest rowid the table
  has ever held.
\<close>

definition next_rowid :: "int \<Rightarrow> int list \<Rightarrow> int" where
  "next_rowid seq ids = max seq (fold max ids 0) + 1"

section \<open>The catalog query of \<open>index\<close>\<close>

text \<open>Lines 184-187: the country filter as normalised by \<open>index\<close>.\<close>

definition normalized_country :: "string option \<Rightarrow> string option" where
  "normalized_country country_filter =
     (case country_filter of
        None \<Rightarrow> None
      | Some cf \<Rightarrow> if cf \<noteq> [] then Some (py_capitalize (py_lower (py_strip cf))) else None)"

text \<open>
  Lines 193-207: the WHERE clauses, each a predicate on a row of \<open>cars\<close> with its
  parameters bound.
\<close>

definition country_clauses :: "string option \<Rightarrow> (car \<Rightarrow> sql_error + bool) list" where
  "country_clauses country_filter =
     (case normalized_country country_filter of
        None \<Rightarrow> []
      | Some n \<Rightarrow>
          if n \<noteq> [] \<and> py_lower n \<in> {''china'', ''korea''}
          then [\<lambda>row. Inr (sql_lower (country row) = n)]
          else [])"

definition search_clauses :: "string option \<Rightarrow> (car \<Rightarrow> sql_error + bool) list" where
  "search_clauses search_query =
     (case search_query of
        None \<Rightarrow> []
      | Some q \<Rightarrow>
          if q \<noteq> []
          then (let like_pattern = ''%'' @ py_lower q @ ''%''
                in [\<lambda>row. sql_or (sql_like like_pattern (sql_lower (brand row)))
                                 (sql_like like_pattern (sql_lower (model row)))])
          else [])"

text \<open>
  Lines 206-212: the clauses joined by AND, the rows ordered by year, newest first. The
  result is the rows of \<open>cursor.fetchall()\<close>, or the error the statement raises.
\<close>

definition index_cars ::
  "string option \<Rightarrow> string option \<Rightarrow> car list \<Rightarrow> sql_error + car list" where
  "index_cars country_filter search_query rows =
     (let clauses = country_clauses country_filter @ search_clauses search_query
      in case sql_select (where_all clauses) rows of
           Inl e \<Rightarrow> Inl e
         | Inr kept \<Rightarrow> Inr (order_by_desc year kept))"

section \<open>The latest tracking event per car\<close>

text \<open>
  \<open>latest_tracking\<close> (lines 167-179). The inner SELECT gives one row per \<open>car_id\<close> with
  the largest \<open>updated_at\<close> of its group; TEXT values compare bytewise, which is the
  lexicographic order of \<open>string\<close>.
\<close>

definition max_updated_by_car :: "tracking_event list \<Rightarrow> (int \<times> string option) list" where
  "max_updated_by_car events =
     map (\<lambda>cid. (cid, sql_max (map updated_at (filter (\<lambda>t. car_id t = cid) events))))
       (remdups (map car_id events))"

text \<open>
  The INNER JOIN: a row of \<open>tracking_events\<close> once for every group row with its
  \<open>car_id\<close> and its \<open>updated_at\<close>.
\<close>

definition latest_rows :: "tracking_event list \<Rightarrow> tracking_event list" where
  "latest_rows events =
     concat (map (\<lambda>t. map (\<lambda>_. t)
                    (filter (\<lambda>(cid, max_updated). cid = car_id t \<and> max_updated = Some (updated_at t))
                       (max_updated_by_car events)))
               events)"

text \<open>
  The dict comprehension \<open>{row['car_id']: row for row in rows}\<close>: a Python dict keeps one
  entry per key, in the order of first insertion, and a later row replaces the value.
\<close>

definition dict_by_car_id :: "tracking_event list \<Rightarrow> (int \<times> tracking_event) list" where
  "dict_by_car_id rows = fold (\<lambda>row d. AList.update (car_id row) row d) rows []"

definition latest_tracking :: "tracking_event list \<Rightarrow> (int \<times> tracking_event) list" where
  "latest_tracking events = dict_by_car_id (latest_rows events)"

section \<open>Requests, responses and the state of one request\<close>

datatype http_method = GET | POST

record request =
  request_method :: http_method
  url :: string
  args :: "string \<rightharpoonup> string"
  form :: "string \<rightharpoonup> string"

text \<open>
  The messages passed to \<open>flash\<close>, named by what they say (the source texts are
  Russian), with the line of app.py that flashes each.
\<close>

datatype message =
    LoginToSubmitLead       \<comment> \<open>line 142\<close>
  | LoginToContinue         \<comment> \<open>line 155\<close>
  | NoPermission            \<comment> \<open>line 158\<close>
  | FillRequiredFields      \<comment> \<open>line 243\<close>
  | CarAdded                \<comment> \<open>line 270\<close>
  | NameAndPhoneRequired    \<comment> \<open>line 288\<close>
  | LeadSent                \<comment> \<open>line 316\<close>
  | ChooseCarStatusLocation \<comment> \<open>line 374\<close>
  | TrackingUpdated         \<comment> \<open>line 384\<close>
  | FillAllRequired         \<comment> \<open>line 421\<close>
  | PasswordsDiffer         \<comment> \<open>line 425\<close>
  | EmailAlreadyRegistered  \<comment> \<open>line 433\<close>
  | RegistrationDone        \<comment> \<open>line 445\<close>

datatype category = Error | Success

text \<open>
  Redirect targets: a plain URL, or \<open>url_for('login', next=...)\<close> and
  \<open>url_for('register', next=...)\<close> with the value of \<open>next\<close>.
\<close>

datatype target = Url string | LoginUrl string | RegisterUrl string

text \<open>The SQL statements a request executes, by kind and tables.\<close>

datatype table = Users | Cars | Leads | TrackingEvents

datatype sql = Select "table list" | Insert table

text \<open>A row of the \<open>leads_list\<close> query: the lead with the columns of its two LEFT JOINs.\<close>

record lead_row =
  lead_of :: lead
  car_brand :: "string option"
  car_model :: "string option"
  user_name :: "string option"
  user_email :: "string option"
  user_role :: "string option"

text \<open>A row of the recent-events query of \<open>manage_tracking\<close>: the event and its car.\<close>

record event_row =
  event_of :: tracking_event
  e_brand :: string
  e_model :: string

text \<open>The values each handler passes to \<open>render_template\<close>.\<close>

datatype view =
    IndexPage "car list" "string list" "string option" "string option"
      "(int \<times> tracking_event) list"
  | LeadsPage "lead_row list"
  | TrackingManagePage "(int \<times> string \<times> string \<times> int) list" "event_row list"
  | RegisterPage string

text \<open>
  A response: a redirect, a rendered template with the user \<open>inject_user\<close> adds to its
  context, or the 500 answer to an exception no handler catches.
\<close>

datatype response = Redirect target | Render view "user option" | InternalServerError

text \<open>
  The state a request runs in: the database, \<open>session['user_id']\<close>, the request-scoped
  cache \<open>g.current_user\<close> (\<open>None\<close> while the attribute is not set), the messages flashed,
  the statements executed, and the store's \<open>CURRENT_TIMESTAMP\<close>.
\<close>

record state =
  db :: database
  session_user_id :: "int option"
  g_current_user :: "user option option"
  flashes :: "(message \<times> category) list"
  executed :: "sql list"
  current_timestamp :: string

text \<open>The state at the start of a request: nothing cached, flashed or executed yet.\<close>

definition begin_request :: "database \<Rightarrow> int option \<Rightarrow> string \<Rightarrow> state" where
  "begin_request d uid now =
     \<lparr>db = d, session_user_id = uid, g_current_user = None, flashes = [], executed = [],
      current_timestamp = now\<rparr>"

definition flash :: "message \<Rightarrow> category \<Rightarrow> state \<Rightarrow> state" where
  "flash m c s = s\<lparr>flashes := flashes s @ [(m, c)]\<rparr>"

definition execute :: "sql \<Rightarrow> state \<Rightarrow> state" where
  "execute q s = s\<lparr>executed := executed s @ [q]\<rparr>"

text \<open>\<open>url_for\<close> of the routes without parameters.\<close>

definition url_for_index :: string where
  "url_for_index = ''/''"

definition url_for_add_car_form :: string where
  "url_for_add_car_form = ''/add''"

definition url_for_manage_tracking :: string where
  "url_for_manage_tracking = ''/tracking/manage''"

section \<open>Identity and the access-control decorators\<close>

text \<open>\<open>get_current_user\<close> (lines 111-124).\<close>

definition get_current_user :: "state \<Rightarrow> user option \<times> state" where
  "get_current_user s =
     (case g_current_user s of
        Some cached \<Rightarrow> (cached, s)
      | None \<Rightarrow>
          if \<not> truthy_int (session_user_id s)
          then (None, s\<lparr>g_current_user := Some None\<rparr>)
          else (let s1 = execute (Select [Users]) s;
                    user = find (\<lambda>u. Some (u_id u) = session_user_id s) (users (db s1))
                in (user, s1\<lparr>g_current_user := Some user\<rparr>)))"

text \<open>\<open>render_template\<close>: the context processor \<open>inject_user\<close> (lines 127-135) runs first.\<close>

definition render_template :: "view \<Rightarrow> state \<Rightarrow> response \<times> state" where
  "render_template v s = (let (user, s1) = get_current_user s in (Render v user, s1))"

type_synonym handler = "request \<Rightarrow> state \<Rightarrow> response \<times> state"

text \<open>\<open>login_required\<close> (lines 138-146).\<close>

definition login_required :: "handler \<Rightarrow> handler" where
  "login_required view req s =
     (let (user, s1) = get_current_user s
      in if user = None
         then (Redirect (LoginUrl (url req)), flash LoginToSubmitLead Error s1)
         else view req s1)"

text \<open>\<open>role_required\<close> (lines 149-164).\<close>

definition role_required :: "string list \<Rightarrow> handler \<Rightarrow> handler" where
  "role_required roles view req s =
     (let (user, s1) = get_current_user s
      in case user of
           None \<Rightarrow> (Redirect (LoginUrl (url req)), flash LoginToContinue Error s1)
         | Some u \<Rightarrow>
             if roles \<noteq> [] \<and> u_role u \<notin> set roles
             then (Redirect (Url url_for_index), flash NoPermission Error s1)
             else view req s1)"

section \<open>The handlers\<close>

text \<open>
  \<open>index\<close> (lines 182-228): the catalog query, the latest tracking event per car, and
  the sorted distinct non-empty countries. An error of the catalog query is an exception
  that nothing catches.
\<close>

definition index :: handler where
  "index req s =
     (let country_filter = args req ''country'';
          search_query = args req ''q''
      in case index_cars country_filter search_query (cars (db s)) of
           Inl e \<Rightarrow> (InternalServerError, s)
         | Inr rows \<Rightarrow>
             (let s1 = execute (Select [Cars]) s;
                  s2 = execute (Select [TrackingEvents]) s1;
                  tracking_map = latest_tracking (tracking_events (db s2));
                  s3 = execute (Select [Cars]) s2;
                  countries = sort (remdups (filter (\<lambda>c. c \<noteq> []) (map country (cars (db s3)))))
              in render_template
                   (IndexPage rows countries (normalized_country country_filter) search_query
                      tracking_map)
                   s3))"

text \<open>Whether the sqlite3 module can bind an optional integer parameter.\<close>

definition binds :: "int option \<Rightarrow> bool" where
  "binds v = (case v of None \<Rightarrow> True | Some n \<Rightarrow> fits_int64 n)"

text \<open>
  \<open>add_car\<close> (lines 237-271), the body under the decorator. An integer outside the
  64-bit range makes \<open>cursor.execute\<close> raise OverflowError, which nothing catches.
\<close>

definition add_car_view :: handler where
  "add_car_view req s =
     (let required_fields = [''brand'', ''model'', ''year'', ''price'', ''country''];
          missing = filter (\<lambda>field. \<not> truthy (form req field)) required_fields
      in if missing \<noteq> []
         then (Redirect (Url url_for_add_car_form), flash FillRequiredFields Error s)
         else
           (let year_v = or_zero (safe_int (form req ''year''));
                price_v = or_zero (safe_int (form req ''price''));
                mileage_v = or_zero (safe_int (form req ''mileage''))
            in if \<not> (fits_int64 year_v \<and> fits_int64 price_v \<and> fits_int64 mileage_v)
               then (InternalServerError, s)
               else
                 (let rowid = next_rowid (cars_seq (db s)) (map c_id (cars (db s)));
                      row = \<lparr>c_id = rowid,
                             brand = py_strip (get_or_empty (form req) ''brand''),
                             model = py_strip (get_or_empty (form req) ''model''),
                             year = year_v,
                             price = price_v,
                             mileage = Some mileage_v,
                             fuel_type = form req ''fuel_type'',
                             country = get_or_empty (form req) ''country'',
                             image_url = Some (get_or_empty (form req) ''image_url''),
                             description = Some (get_or_empty (form req) ''description'')\<rparr>;
                      s1 = execute (Insert Cars)
                             (s\<lparr>db := (db s)\<lparr>cars := cars (db s) @ [row], cars_seq := rowid\<rparr>\<rparr>)
                  in (Redirect (Url url_for_index), flash CarAdded Success s1))))"

definition add_car :: handler where
  "add_car = role_required [''admin'', ''moderator''] add_car_view"

text \<open>
  \<open>create_lead\<close> (lines 274-317), the body under the decorator. \<open>get_current_user()['id']\<close>
  raises TypeError when there is no user.
\<close>

definition create_lead_view :: handler where
  "create_lead_view req s =
     (let name = py_strip (get_or_empty (form req) ''name'');
          phone = py_strip (get_or_empty (form req) ''phone'');
          email = py_strip (get_or_empty (form req) ''email'');
          preferred_brand_v = py_strip (get_or_empty (form req) ''preferred_brand'');
          preferred_model_v = py_strip (get_or_empty (form req) ''preferred_model'');
          budget_v = form req ''budget'';
          country_v = form req ''preferred_country'';
          comment_v = py_strip (get_or_empty (form req) ''comment'');
          car_id_v = form req ''car_id''
      in if name = [] \<or> phone = []
         then (Redirect (Url (url_for_index @ ''#request'')), flash NameAndPhoneRequired Error s)
         else
           (let (user, s1) = get_current_user s
            in case user of
                 None \<Rightarrow> (InternalServerError, s1)
               | Some u \<Rightarrow>
                   if \<not> (binds (safe_int car_id_v) \<and> binds (safe_int budget_v))
                   then (InternalServerError, s1)
                   else
                     (let rowid = next_rowid (leads_seq (db s1)) (map l_id (leads (db s1)));
                          row = \<lparr>l_id = rowid,
                                 l_name = name,
                                 l_phone = phone,
                                 l_email = Some email,
                                 l_car_id = safe_int car_id_v,
                                 preferred_brand = Some preferred_brand_v,
                                 preferred_model = Some preferred_model_v,
                                 l_country = country_v,
                                 budget = safe_int budget_v,
                                 l_comment = Some comment_v,
                                 l_created_at = current_timestamp s1,
                                 l_user_id = Some (u_id u)\<rparr>;
                          s2 = execute (Insert Leads)
                                 (s1\<lparr>db := (db s1)\<lparr>leads := leads (db s1) @ [row],
                                                     leads_seq := rowid\<rparr>\<rparr>)
                      in (Redirect (Url url_for_index), flash LeadSent Success s2))))"

definition create_lead :: handler where
  "create_lead = login_required create_lead_view"

text \<open>
  \<open>leads_list\<close> (lines 320-340), the body under the decorator: every lead with the
  brand and model of its car and the name, email and role of its user, newest first.
\<close>

definition join_lead :: "car list \<Rightarrow> user list \<Rightarrow> lead \<Rightarrow> lead_row" where
  "join_lead cs us l =
     (let c = (case l_car_id l of None \<Rightarrow> None | Some cid \<Rightarrow> find (\<lambda>c. c_id c = cid) cs);
          u = (case l_user_id l of None \<Rightarrow> None | Some uid \<Rightarrow> find (\<lambda>u. u_id u = uid) us)
      in \<lparr>lead_of = l,
          car_brand = map_option brand c,
          car_model = map_option model c,
          user_name = map_option u_name u,
          user_email = map_option u_email u,
          user_role = map_option u_role u\<rparr>)"

definition leads_list_view :: handler where
  "leads_list_view req s =
     (let s1 = execute (Select [Leads, Cars, Users]) s;
          rows = order_by_desc (\<lambda>r. l_created_at (lead_of r))
                   (map (join_lead (cars (db s1)) (users (db s1))) (leads (db s1)))
      in render_template (LeadsPage rows) s1)"

definition leads_list :: handler where
  "leads_list = role_required [''admin''] leads_list_view"

text \<open>
  \<open>manage_tracking\<close> (lines 360-403), the body under the decorator. Past the check of
  line 373 \<open>car_id\<close> is an integer other than 0.
\<close>

definition join_event :: "car list \<Rightarrow> tracking_event \<Rightarrow> event_row option" where
  "join_event cs t =
     map_option (\<lambda>c. \<lparr>event_of = t, e_brand = brand c, e_model = model c\<rparr>)
       (find (\<lambda>c. c_id c = car_id t) cs)"

definition manage_tracking_view :: handler where
  "manage_tracking_view req s =
     (if request_method req = POST
      then
        (let car_id_v = safe_int (form req ''car_id'');
             status_v = py_strip (get_or_empty (form req) ''status'');
             location_v = py_strip (get_or_empty (form req) ''location'');
             eta_v = py_strip (get_or_empty (form req) ''eta'');
             comment_v = py_strip (get_or_empty (form req) ''comment'')
         in if \<not> truthy_int car_id_v \<or> status_v = [] \<or> location_v = []
            then (Redirect (Url url_for_manage_tracking), flash ChooseCarStatusLocation Error s)
            else
              (case car_id_v of
                 None \<Rightarrow> (InternalServerError, s)
               | Some n \<Rightarrow>
                   if \<not> fits_int64 n
                   then (InternalServerError, s)
                   else
                     (let rowid = next_rowid (tracking_events_seq (db s))
                                    (map t_id (tracking_events (db s)));
                          row = \<lparr>t_id = rowid,
                                 car_id = n,
                                 status = status_v,
                                 location = location_v,
                                 eta = Some eta_v,
                                 comment = Some comment_v,
                                 updated_at = current_timestamp s\<rparr>;
                          s1 = execute (Insert TrackingEvents)
                                 (s\<lparr>db := (db s)\<lparr>tracking_events := tracking_events (db s) @ [row],
                                                   tracking_events_seq := rowid\<rparr>\<rparr>)
                      in (Redirect (Url url_for_manage_tracking),
                          flash TrackingUpdated Success s1))))
      else
        (let s1 = execute (Select [Cars]) s;
             car_rows = map (\<lambda>c. (c_id c, brand c, model c, year c))
                          (sort_key brand (cars (db s1)));
             s2 = execute (Select [TrackingEvents, Cars]) s1;
             events = take 20
                        (order_by_desc (\<lambda>r. updated_at (event_of r))
                           (List.map_filter (join_event (cars (db s2))) (tracking_events (db s2))))
         in render_template (TrackingManagePage car_rows events) s2))"

definition manage_tracking :: handler where
  "manage_tracking = role_required [''admin'', ''moderator''] manage_tracking_view"



section \<open>The words of the specification\<close>

text \<open>
  "Case-insensitive substring", as the specification says it of the search query: the
  query, lower-cased, occurs as a contiguous run in the lower-cased text.
\<close>

definition ci_substring :: "string \<Rightarrow> string \<Rightarrow> bool" where
  "ci_substring q s = sublist (py_lower q) (py_lower s)"

section \<open>Example data\<close>

definition kia_rio :: car where
  "kia_rio = \<lparr>c_id = 1, brand = ''Kia'', model = ''Rio'', year = 2020, price = 15000,
     mileage = Some 0, fuel_type = None, country = ''Korea'', image_url = Some [],
     description = Some []\<rparr>"

definition byd_han :: car where
  "byd_han = \<lparr>c_id = 2, brand = ''BYD'', model = ''Han'', year = 2023, price = 45000,
     mileage = Some 0, fuel_type = Some ''Electric'', country = ''China'',
     image_url = Some [], description = Some []\<rparr>"

definition event_a :: tracking_event where
  "event_a = \<lparr>t_id = 1, car_id = 1, status = ''At the warehouse'', location = ''Busan'',
     eta = Some ''7 days'', comment = Some [], updated_at = ''2024-01-01 10:00:00''\<rparr>"

definition event_b :: tracking_event where
  "event_b = \<lparr>t_id = 2, car_id = 1, status = ''At sea'', location = ''Yellow Sea'',
     eta = Some ''5 days'', comment = Some [], updated_at = ''2024-01-02 10:00:00''\<rparr>"

definition event_c :: tracking_event where
  "event_c = \<lparr>t_id = 3, car_id = 1, status = ''Customs'', location = ''Vladivostok'',
     eta = Some ''5 days'', comment = Some [], updated_at = ''2024-01-02 10:00:00''\<rparr>"

definition event_d :: tracking_event where
  "event_d = \<lparr>t_id = 4, car_id = 2, status = ''Delivery'', location = ''Novosibirsk'',
     eta = Some ''3 days'', comment = Some [], updated_at = ''2024-01-01 09:00:00''\<rparr>"

definition sample_events :: "tracking_event list" where
  "sample_events = [event_a, event_b, event_c, event_d]"

definition demo_admin :: user where
  "demo_admin = \<lparr>u_id = 1, u_name = ''Demo Manager'', u_email = ''demo@asiadrive.com'',
     u_phone = Some ''+82 10 1234 5678'', password_hash = ''hash-of-demo1234'',
     u_role = ''admin'', u_created_at = ''2024-01-01 00:00:00''\<rparr>"

definition ann :: user where
  "ann = \<lparr>u_id = 2, u_name = ''Ann'', u_email = ''ann@example.com'',
     u_phone = Some [], password_hash = ''hash-of-secret'',
     u_role = ''customer'', u_created_at = ''2024-01-02 00:00:00''\<rparr>"

definition ann_lead :: lead where
  "ann_lead = \<lparr>l_id = 1, l_name = ''Ann'', l_phone = ''+7 900 000 00 00'', l_email = Some [],
     l_car_id = Some 1, preferred_brand = Some [], preferred_model = Some [],
     l_country = None, budget = None, l_comment = Some [],
     l_created_at = ''2024-01-02 08:00:00'', l_user_id = Some 2\<rparr>"

definition sample_db :: database where
  "sample_db = \<lparr>users = [demo_admin, ann], cars = [kia_rio, byd_han], leads = [ann_lead],
     tracking_events = sample_events, users_seq = 2, cars_seq = 2, leads_seq = 1,
     tracking_events_seq = 4\<rparr>"

definition leads_request :: request where
  "leads_request = \<lparr>request_method = GET, url = ''http://localhost:5001/leads'',
     args = Map.empty, form = Map.empty\<rparr>"

definition ann_state :: state where
  "ann_state = begin_request sample_db (Some 2) ''2024-01-03 12:00:00''"

definition admin_state :: state where
  "admin_state = begin_request sample_db (Some 1) ''2024-01-03 12:00:00''"

definition lead_request_blank_phone :: request where
  "lead_request_blank_phone = \<lparr>request_method = POST, url = ''http://localhost:5001/lead'',
     args = Map.empty, form = [''name'' \<mapsto> ''Ann'', ''phone'' \<mapsto> ''   '']\<rparr>"

definition lead_request_words :: request where
  "lead_request_words = \<lparr>request_method = POST, url = ''http://localhost:5001/lead'',
     args = Map.empty,
     form = [''name'' \<mapsto> '' Ann '', ''phone'' \<mapsto> ''+7 900 111 22 33'',
             ''car_id'' \<mapsto> ''first'', ''budget'' \<mapsto> ''20k'']\<rparr>"

definition lead_request_mixed :: request where
  "lead_request_mixed = \<lparr>request_method = POST, url = ''http://localhost:5001/lead'',
     args = Map.empty,
     form = [''name'' \<mapsto> ''Ann'', ''phone'' \<mapsto> ''+7 900 111 22 33'',
             ''car_id'' \<mapsto> ''2'', ''budget'' \<mapsto> ''cheap'']\<rparr>"

definition add_car_request :: request where
  "add_car_request = \<lparr>request_method = POST, url = ''http://localhost:5001/add'',
     args = Map.empty,
     form = [''brand'' \<mapsto> ''Kia'', ''model'' \<mapsto> ''Rio'', ''year'' \<mapsto> ''new'',
             ''price'' \<mapsto> ''15_000'', ''country'' \<mapsto> ''Korea'']\<rparr>"

definition add_car_request_overflow :: request where
  "add_car_request_overflow = \<lparr>request_method = POST, url = ''http://localhost:5001/add'',
     args = Map.empty,
     form = [''brand'' \<mapsto> ''Kia'', ''model'' \<mapsto> ''Rio'', ''year'' \<mapsto> ''new'',
             ''price'' \<mapsto> ''9223372036854775808'', ''country'' \<mapsto> ''Korea'']\<rparr>"

definition tracking_request_abc :: request where
  "tracking_request_abc = \<lparr>request_method = POST,
     url = ''http://localhost:5001/tracking/manage'', args = Map.empty,
     form = [''car_id'' \<mapsto> ''abc'', ''status'' \<mapsto> ''At sea'', ''location'' \<mapsto> ''Yellow Sea'']\<rparr>"

definition tracking_request_two :: request where
  "tracking_request_two = \<lparr>request_method = POST,
     url = ''http://localhost:5001/tracking/manage'', args = Map.empty,
     form = [''car_id'' \<mapsto> '' 2 '', ''status'' \<mapsto> ''Customs'', ''location'' \<mapsto> ''Vladivostok'',
             ''eta'' \<mapsto> ''5 days'']\<rparr>"






section \<open>Facts about the text operations\<close>

lemmas case_defs = to_lower_def to_upper_def ascii_uppercase_def ascii_lowercase_def

lemmas text_defs = py_lower_def sql_lower_def py_capitalize_def py_strip_def py_isspace_def
  py_whitespace_def case_defs

lemma to_lower_idem: "to_lower (to_lower c) = to_lower c"
  by (simp add: case_defs)

lemma to_lower_wildcards:
  "CHR ''%'' = to_lower c \<longleftrightarrow> CHR ''%'' = c"
  "CHR ''_'' = to_lower c \<longleftrightarrow> CHR ''_'' = c"
  by (simp_all add: case_defs)

lemma py_lower_no_wildcards:
  "CHR ''%'' \<notin> set q \<Longrightarrow> CHR ''_'' \<notin> set q \<Longrightarrow>
   CHR ''%'' \<notin> set (py_lower q) \<and> CHR ''_'' \<notin> set (py_lower q)"
  unfolding py_lower_def
  by (induction q) (simp_all add: to_lower_wildcards)

lemma to_lower_nul: "CHR 0x00 = to_lower c \<longleftrightarrow> CHR 0x00 = c"
  by (simp add: case_defs)

lemma map_to_lower_no_nul: "CHR 0x00 \<notin> set s \<Longrightarrow> CHR 0x00 \<notin> set (map to_lower s)"
  by (induction s) (simp_all add: to_lower_nul)

lemma until_nul_id: "CHR 0x00 \<notin> set s \<Longrightarrow> until_nul s = s"
  by (auto simp: until_nul_def takeWhile_eq_all_conv)

subsection \<open>Matching a pattern \<open>%q%\<close>\<close>

lemma pattern_compare_percent_only: "pattern_compare ''%'' s"
  by (induction s) simp_all

text \<open>A leading \<open>%\<close> lets the rest of the pattern match any suffix of the text.\<close>

lemma pattern_compare_leading_percent:
  "pattern_compare (CHR ''%'' # p) s \<longleftrightarrow> (\<exists>ps ss. s = ps @ ss \<and> pattern_compare p ss)"
proof (induction s)
  case Nil
  then show ?case by simp
next
  case (Cons c t)
  have "pattern_compare (CHR ''%'' # p) (c # t) \<longleftrightarrow> pattern_compare p (c # t) \<or> pattern_compare (CHR ''%'' # p) t"
    by simp
  also have "\<dots> \<longleftrightarrow> pattern_compare p (c # t) \<or> (\<exists>ps ss. t = ps @ ss \<and> pattern_compare p ss)"
    using Cons.IH by simp
  also have "\<dots> \<longleftrightarrow> (\<exists>ps ss. c # t = ps @ ss \<and> pattern_compare p ss)"
    by (auto simp: Cons_eq_append_conv)
  finally show ?case .
qed

text \<open>A pattern without wildcards, followed by \<open>%\<close>, matches the texts it is a prefix of,
  up to the case of letters.\<close>

lemma pattern_compare_literal_prefix:
  "CHR ''%'' \<notin> set q \<Longrightarrow> CHR ''_'' \<notin> set q \<Longrightarrow>
   pattern_compare (q @ ''%'') s \<longleftrightarrow> (\<exists>m ss. s = m @ ss \<and> map to_lower m = map to_lower q)"
proof (induction q arbitrary: s)
  case Nil
  then show ?case by (simp del: pattern_compare.simps add: pattern_compare_percent_only)
next
  case (Cons p q)
  show ?case
  proof (cases s)
    case Nil
    then show ?thesis using Cons.prems by auto
  next
    case s: (Cons c t)
    have step: "pattern_compare ((p # q) @ ''%'') (c # t) \<longleftrightarrow>
        to_lower p = to_lower c \<and> (\<exists>m ss. t = m @ ss \<and> map to_lower m = map to_lower q)"
      using Cons.IH [of t] Cons.prems by auto
    have "(to_lower p = to_lower c \<and> (\<exists>m ss. t = m @ ss \<and> map to_lower m = map to_lower q))
        \<longleftrightarrow> (\<exists>m ss. c # t = m @ ss \<and> map to_lower m = map to_lower (p # q))"
    proof
      assume "to_lower p = to_lower c \<and> (\<exists>m ss. t = m @ ss \<and> map to_lower m = map to_lower q)"
      then obtain m ss
        where "to_lower p = to_lower c" "t = m @ ss" "map to_lower m = map to_lower q"
        by blast
      then have "c # t = (c # m) @ ss \<and> map to_lower (c # m) = map to_lower (p # q)"
        by simp
      then show "\<exists>m ss. c # t = m @ ss \<and> map to_lower m = map to_lower (p # q)"
        by blast
    next
      assume "\<exists>m ss. c # t = m @ ss \<and> map to_lower m = map to_lower (p # q)"
      then obtain m ss where m: "c # t = m @ ss" "map to_lower m = map to_lower (p # q)"
        by blast
      from m(2) obtain c' m' where m': "m = c' # m'" by (cases m) auto
      with m have "c' = c" "t = m' @ ss" "to_lower c' = to_lower p"
        "map to_lower m' = map to_lower q"
        by auto
      then show "to_lower p = to_lower c
          \<and> (\<exists>m ss. t = m @ ss \<and> map to_lower m = map to_lower q)"
        by auto
    qed
    with step show ?thesis using s by simp
  qed
qed

lemma sublist_map_iff:
  "sublist (map f q) (map f s) \<longleftrightarrow> (\<exists>ps m ss. s = ps @ m @ ss \<and> map f m = map f q)"
proof
  assume "sublist (map f q) (map f s)"
  then obtain a b where ab: "map f s = a @ map f q @ b"
    by (auto simp: sublist_def)
  from map_eq_append_conv [THEN iffD1, OF ab]
  obtain ps rest where r: "s = ps @ rest" "a = map f ps" "map f q @ b = map f rest"
    by blast
  from map_eq_append_conv [THEN iffD1, OF r(3) [symmetric]]
  obtain m ss where "rest = m @ ss" "map f q = map f m"
    by blast
  then have "rest = m @ ss" "map f m = map f q"
    by simp_all
  with r show "\<exists>ps m ss. s = ps @ m @ ss \<and> map f m = map f q"
    by blast
next
  assume "\<exists>ps m ss. s = ps @ m @ ss \<and> map f m = map f q"
  then obtain ps m ss where "s = ps @ m @ ss" "map f m = map f q"
    by blast
  then have "map f s = map f ps @ map f q @ map f ss"
    by simp
  then show "sublist (map f q) (map f s)"
    by (auto simp: sublist_def)
qed

lemma pattern_compare_contains:
  assumes "CHR ''%'' \<notin> set q" "CHR ''_'' \<notin> set q"
  shows "pattern_compare (''%'' @ q @ ''%'') s \<longleftrightarrow> sublist (map to_lower q) (map to_lower s)"
proof -
  have "pattern_compare (''%'' @ q @ ''%'') s \<longleftrightarrow> (\<exists>ps ss. s = ps @ ss \<and> pattern_compare (q @ ''%'') ss)"
    using pattern_compare_leading_percent [of "q @ ''%''" s] by simp
  also have "\<dots> \<longleftrightarrow> (\<exists>ps m ss. s = ps @ m @ ss \<and> map to_lower m = map to_lower q)"
    using assms by (auto simp: pattern_compare_literal_prefix)
  finally show ?thesis
    by (simp add: sublist_map_iff)
qed

subsection \<open>ORDER BY\<close>

lemma filter_order_by_desc:
  "filter P (order_by_desc f rows) = order_by_desc f (filter P rows)"
  by (simp add: order_by_desc_def rev_filter filter_sort [symmetric])

lemma set_order_by_desc: "set (order_by_desc f rows) = set rows"
  by (simp add: order_by_desc_def)

section \<open>The catalog query\<close>

lemmas sql_defs = sql_like_def sql_or_def sql_and_def until_nul_def like_pattern_length_def

lemmas index_cars_defs = Let_def index_cars_def country_clauses_def normalized_country_def
  search_clauses_def order_by_desc_def sql_defs text_defs kia_rio_def byd_han_def

lemma sql_select_total:
  "\<forall>row \<in> set rows. w row = Inr (P row) \<Longrightarrow> sql_select w rows = Inr (filter P rows)"
  by (induction rows) simp_all

lemma where_all_Nil: "where_all [] = (\<lambda>row. Inr True)"
  by (rule ext) simp

text \<open>
  The country clause, when \<open>index\<close> adds it, holds for no row: its parameter starts
  with a capital letter and \<open>LOWER(country)\<close> has none.
\<close>

lemma to_lower_not_upper: "to_lower x \<notin> set ascii_uppercase"
  by (simp add: case_defs)

lemma capital_initial:
  "to_lower (to_upper c) = CHR ''c'' \<or> to_lower (to_upper c) = CHR ''k''
   \<Longrightarrow> to_upper c \<in> set ascii_uppercase"
  by (simp add: case_defs split: if_splits)

lemma country_clauses_cases:
  obtains (none) "country_clauses country_filter = []"
  | (clause) n where "country_clauses country_filter = [\<lambda>row. Inr (sql_lower (country row) = n)]"
      "normalized_country country_filter = Some n" "n \<noteq> []"
      "py_lower n \<in> {''china'', ''korea''}"
proof (cases "normalized_country country_filter")
  case None
  then have "country_clauses country_filter = []"
    by (simp add: country_clauses_def)
  then show ?thesis by (rule none)
next
  case (Some n)
  show ?thesis
  proof (cases "n \<noteq> [] \<and> py_lower n \<in> {''china'', ''korea''}")
    case True
    with Some have "country_clauses country_filter = [\<lambda>row. Inr (sql_lower (country row) = n)]"
      by (simp add: country_clauses_def)
    with Some True show ?thesis by (intro clause [of n]) simp_all
  next
    case False
    with Some have "country_clauses country_filter = []"
      by (auto simp: country_clauses_def)
    then show ?thesis by (rule none)
  qed
qed

lemma normalized_country_not_lower:
  assumes "normalized_country country_filter = Some n" "n \<noteq> []"
    "py_lower n \<in> {''china'', ''korea''}"
  shows "sql_lower text \<noteq> n"
proof -
  from assms(1) obtain cf where "n = py_capitalize (py_lower (py_strip cf))"
    by (auto simp: normalized_country_def split: option.splits if_splits)
  with assms(2) obtain c cs where c: "n = to_upper c # cs"
    by (auto simp: py_capitalize_def split: list.splits)
  with assms(3) have "to_lower (to_upper c) = CHR ''c'' \<or> to_lower (to_upper c) = CHR ''k''"
    by (auto simp: py_lower_def)
  then have up: "to_upper c \<in> set ascii_uppercase"
    by (rule capital_initial)
  show ?thesis
  proof
    assume "sql_lower text = n"
    with c obtain x where "to_lower x = to_upper c"
      by (auto simp: sql_lower_def)
    with up to_lower_not_upper [of x] show False
      by simp
  qed
qed

lemma index_cars_country_filter_empty:
  assumes "country_clauses country_filter \<noteq> []"
  shows "index_cars country_filter search_query rows = Inr []"
proof (cases country_filter rule: country_clauses_cases)
  case none
  with assms show ?thesis by simp
next
  case (clause n)
  have "where_all (country_clauses country_filter @ search_clauses search_query) row = Inr False"
    for row
    using normalized_country_not_lower [OF clause(2-4), of "country row"]
    by (simp add: clause(1) sql_and_def)
  then have "sql_select (where_all (country_clauses country_filter @ search_clauses search_query))
      rows = Inr (filter (\<lambda>row. False) rows)"
    by (intro sql_select_total) simp
  then show ?thesis
    by (simp add: index_cars_def order_by_desc_def)
qed

text \<open>
  C1. A country filter that normalises to China or Korea should select the cars of that
  country. The query compares \<open>LOWER(country)\<close> with the capitalised parameter
  (\<open>'Korea'\<close>), which no lower-cased text equals: the Korean car of the catalog is not
  returned for the filter \<open>korea\<close>, and neither is any other car.
\<close>

theorem index_country_korea_returns_no_car:
  "index_cars (Some ''korea'') None [kia_rio, byd_han] = Inr []"
  by (simp add: index_cars_defs)

theorem index_country_korea_returns_no_car_witness:
  "py_lower (country kia_rio) = py_lower ''korea''
   \<and> (case index_cars (Some ''korea'') None [kia_rio, byd_han] of
        Inl e \<Rightarrow> False
      | Inr rows \<Rightarrow> kia_rio \<notin> set rows)"
  using index_country_korea_returns_no_car
  by (simp add: kia_rio_def text_defs)

text \<open>
  C4. The search should return the cars whose brand or model contains the query, in any
  case of letters, and nothing else. The query is put into the LIKE pattern as it is, so
  its \<open>_\<close> stands for any character: the query \<open>r_o\<close> is no substring of "Kia" or of
  "Rio", and the car is returned.
\<close>

theorem index_search_underscore_is_wildcard:
  "index_cars None (Some ''r_o'') [kia_rio] = Inr [kia_rio]
   \<and> \<not> ci_substring ''r_o'' (brand kia_rio) \<and> \<not> ci_substring ''r_o'' (model kia_rio)"
  by (simp add: index_cars_defs ci_substring_def sublist_code prefix_code)

theorem index_search_underscore_is_wildcard_witness:
  "brand kia_rio = ''Kia'' \<and> model kia_rio = ''Rio''
   \<and> index_cars None (Some ''r_o'') [kia_rio] \<noteq> Inr []"
  using index_search_underscore_is_wildcard
  by (simp add: kia_rio_def)

text \<open>
  The same unescaped pattern makes the query \<open>%\<close> return every car, and so does a query
  that starts with a NUL character, where SQLite stops reading the pattern.
\<close>

lemma index_search_percent_returns_all:
  "index_cars None (Some ''%'') [kia_rio, byd_han] = Inr [byd_han, kia_rio]
   \<and> \<not> ci_substring ''%'' (brand kia_rio) \<and> \<not> ci_substring ''%'' (model kia_rio)
   \<and> \<not> ci_substring ''%'' (brand byd_han) \<and> \<not> ci_substring ''%'' (model byd_han)"
  by (simp add: index_cars_defs ci_substring_def sublist_code prefix_code)

lemma index_search_nul_returns_all:
  "index_cars None (Some [CHR 0x00, CHR ''x'']) [kia_rio, byd_han] = Inr [byd_han, kia_rio]"
  by (simp add: index_cars_defs)

text \<open>
  Away from the wildcards the search is the containment test of the specification. For ASCII text without NUL, and a
  non-empty query without \<open>%\<close> and \<open>_\<close> that keeps the pattern within the length SQLite
  accepts, the cars returned are those, of the cars returned without a search query, for
  which the query is a case-insensitive substring of the brand or of the model.
\<close>

lemma search_clause_substring:
  assumes "q \<noteq> []" "ascii_text q" "CHR 0x00 \<notin> set q" "CHR ''%'' \<notin> set q" "CHR ''_'' \<notin> set q"
    and "length q + 2 \<le> like_pattern_length"
    and "ascii_text (brand row)" "ascii_text (model row)"
    and "CHR 0x00 \<notin> set (brand row)" "CHR 0x00 \<notin> set (model row)"
  shows "where_all (search_clauses (Some q)) row =
     Inr (ci_substring q (brand row) \<or> ci_substring q (model row))"
proof -
  let ?pattern = "''%'' @ py_lower q @ ''%''"
  have nw: "CHR ''%'' \<notin> set (py_lower q)" "CHR ''_'' \<notin> set (py_lower q)"
    using py_lower_no_wildcards assms(4,5) by blast+
  have len: "\<not> length ?pattern > like_pattern_length"
    using assms(6) by (simp add: py_lower_def)
  have pat: "until_nul ?pattern = ?pattern"
    using assms(3) map_to_lower_no_nul [of q] by (intro until_nul_id) (simp add: py_lower_def)
  have like: "sql_like ?pattern (sql_lower s) = Inr (ci_substring q s)"
    if "CHR 0x00 \<notin> set s" for s
  proof -
    have "until_nul (sql_lower s) = sql_lower s"
      using that map_to_lower_no_nul [of s] by (intro until_nul_id) (simp add: sql_lower_def)
    with len pat have "sql_like ?pattern (sql_lower s) = Inr (pattern_compare ?pattern (sql_lower s))"
      by (simp add: sql_like_def)
    also have "pattern_compare ?pattern (sql_lower s) = ci_substring q s"
      using pattern_compare_contains [OF nw, of "sql_lower s"]
      by (simp add: ci_substring_def py_lower_def sql_lower_def to_lower_idem comp_def)
    finally show ?thesis .
  qed
  show ?thesis
    using assms(1) like [OF assms(9)] like [OF assms(10)]
    by (simp add: search_clauses_def Let_def sql_or_def sql_and_def)
qed

lemma index_search_is_substring:
  assumes "q \<noteq> []" "ascii_text q" "CHR 0x00 \<notin> set q" "CHR ''%'' \<notin> set q" "CHR ''_'' \<notin> set q"
    and "length q + 2 \<le> like_pattern_length"
    and "\<forall>row \<in> set rows. ascii_text (brand row) \<and> ascii_text (model row)
           \<and> CHR 0x00 \<notin> set (brand row) \<and> CHR 0x00 \<notin> set (model row)"
  shows "index_cars country_filter (Some q) rows =
     map_sum id (filter (\<lambda>row. ci_substring q (brand row) \<or> ci_substring q (model row)))
       (index_cars country_filter None rows)"
proof (cases "country_clauses country_filter = []")
  case True
  let ?P = "\<lambda>row. ci_substring q (brand row) \<or> ci_substring q (model row)"
  have "\<forall>row \<in> set rows. where_all (search_clauses (Some q)) row = Inr (?P row)"
    using assms(7) search_clause_substring [OF assms(1-6)] by blast
  then have "sql_select (where_all (search_clauses (Some q))) rows = Inr (filter ?P rows)"
    by (rule sql_select_total)
  moreover have "sql_select (where_all []) rows = Inr (filter (\<lambda>row. True) rows)"
    by (intro sql_select_total) simp
  ultimately show ?thesis
    using True
    by (simp add: index_cars_def search_clauses_def filter_order_by_desc)
next
  case False
  then show ?thesis
    by (simp add: index_cars_country_filter_empty)
qed

lemma index_search_is_substring_example:
  "index_cars None (Some ''RI'') [kia_rio, byd_han] = Inr [kia_rio]
   \<and> ci_substring ''RI'' (model kia_rio)
   \<and> \<not> ci_substring ''RI'' (brand byd_han) \<and> \<not> ci_substring ''RI'' (model byd_han)"
  by (simp add: index_cars_defs ci_substring_def sublist_code prefix_code)

text \<open>
  C5. A country filter whose normalised form is not china or korea in any case of
  letters (the empty and the missing filter among them) is ignored: the query returns
  what it returns without a country filter.
\<close>

theorem index_ignores_other_countries:
  assumes "case normalized_country country_filter of
             None \<Rightarrow> True
           | Some n \<Rightarrow> py_lower n \<notin> {''china'', ''korea''}"
  shows "index_cars country_filter search_query rows = index_cars None search_query rows"
proof -
  have "country_clauses country_filter = []"
    using assms by (auto simp: country_clauses_def split: option.splits)
  moreover have "country_clauses None = []"
    by (simp add: country_clauses_def normalized_country_def)
  ultimately show ?thesis
    by (simp add: index_cars_def)
qed

theorem index_ignores_other_countries_witness:
  "(case normalized_country (Some '' Japan '') of
      None \<Rightarrow> True
    | Some n \<Rightarrow> py_lower n \<notin> {''china'', ''korea''})
   \<and> index_cars (Some '' Japan '') None [kia_rio, byd_han] = Inr [byd_han, kia_rio]
   \<and> index_cars None None [kia_rio, byd_han] = Inr [byd_han, kia_rio]"
proof -
  have h: "case normalized_country (Some '' Japan '') of
      None \<Rightarrow> True
    | Some n \<Rightarrow> py_lower n \<notin> {''china'', ''korea''}"
    by (simp add: normalized_country_def text_defs)
  have "index_cars None None [kia_rio, byd_han] = Inr [byd_han, kia_rio]"
    by (simp add: index_cars_defs)
  with h index_ignores_other_countries [OF h, of None "[kia_rio, byd_han]"] show ?thesis
    by simp
qed

section \<open>The latest tracking event per car\<close>

lemma fold_max_ge: "(x::'a::linorder) \<le> fold max xs x"
  by (induction xs arbitrary: x) (auto intro: order_trans [OF max.cobounded2])

lemma fold_max_mem: "fold max xs (x::'a::linorder) \<in> set (x # xs)"
  by (induction xs arbitrary: x) (auto simp: max_def)

lemma fold_max_upper: "y \<in> set xs \<Longrightarrow> (y::'a::linorder) \<le> fold max xs x"
  by (induction xs arbitrary: x) (auto intro: order_trans [OF _ fold_max_ge])

lemma sql_max_Some:
  assumes "xs \<noteq> []"
  shows "\<exists>m. sql_max xs = Some m \<and> m \<in> set xs \<and> (\<forall>y \<in> set xs. y \<le> m)"
proof (cases xs)
  case Nil
  with assms show ?thesis by simp
next
  case (Cons x xs')
  then show ?thesis
    using fold_max_mem [of xs' x] fold_max_upper [of _ xs' x] fold_max_ge [of x xs']
    by auto
qed

lemma sql_max_in: "sql_max xs = Some m \<Longrightarrow> m \<in> set xs \<and> (\<forall>y \<in> set xs. y \<le> m)"
  using sql_max_Some [of xs] by (cases xs) auto

lemma distinct_fold_update:
  "distinct (map fst d0) \<Longrightarrow>
   distinct (map fst (fold (\<lambda>row d. AList.update (car_id row) row d) rows d0))"
  by (induction rows arbitrary: d0) (simp_all add: distinct_update)

lemma keys_fold_update:
  "fst ` set (fold (\<lambda>row d. AList.update (car_id row) row d) rows d0) =
     fst ` set d0 \<union> car_id ` set rows"
proof (induction rows arbitrary: d0)
  case Nil
  then show ?case by simp
next
  case (Cons a rows)
  have "fst ` set (AList.update (car_id a) a d0) = insert (car_id a) (fst ` set d0)"
    using dom_update [of "car_id a" a d0] by (simp add: dom_map_of_conv_image_fst)
  with Cons show ?case by auto
qed

lemma map_of_fold_update_in:
  "map_of (fold (\<lambda>row d. AList.update (car_id row) row d) rows d0) k = Some r \<Longrightarrow>
   (r \<in> set rows \<and> car_id r = k) \<or> map_of d0 k = Some r"
proof (induction rows arbitrary: d0)
  case Nil
  then show ?case by simp
next
  case (Cons a rows)
  from Cons.prems
  have "map_of (fold (\<lambda>row d. AList.update (car_id row) row d) rows
          (AList.update (car_id a) a d0)) k = Some r"
    by simp
  from Cons.IH [OF this]
  have "(r \<in> set rows \<and> car_id r = k) \<or> map_of (AList.update (car_id a) a d0) k = Some r" .
  then show ?case
    by (auto simp: update_conv' split: if_splits)
qed

lemma dict_by_car_id_entry:
  "map_of (dict_by_car_id rows) k = Some r \<Longrightarrow> r \<in> set rows \<and> car_id r = k"
  using map_of_fold_update_in [of rows "[]" k r] by (simp add: dict_by_car_id_def)

lemma dict_by_car_id_keys: "fst ` set (dict_by_car_id rows) = car_id ` set rows"
  by (simp add: dict_by_car_id_def keys_fold_update)

lemma dict_by_car_id_distinct: "distinct (map fst (dict_by_car_id rows))"
  by (simp add: dict_by_car_id_def distinct_fold_update)

lemma max_updated_by_car_entry:
  "(cid, mx) \<in> set (max_updated_by_car events) \<longleftrightarrow>
     cid \<in> car_id ` set events \<and>
     mx = sql_max (map updated_at (filter (\<lambda>t. car_id t = cid) events))"
  by (auto simp: max_updated_by_car_def)

lemma latest_rows_iff:
  "t \<in> set (latest_rows events) \<longleftrightarrow>
     t \<in> set events \<and>
     sql_max (map updated_at (filter (\<lambda>e. car_id e = car_id t) events)) = Some (updated_at t)"
proof
  assume "t \<in> set (latest_rows events)"
  then show "t \<in> set events \<and>
     sql_max (map updated_at (filter (\<lambda>e. car_id e = car_id t) events)) = Some (updated_at t)"
    by (auto simp: latest_rows_def max_updated_by_car_entry)
next
  assume a: "t \<in> set events \<and>
     sql_max (map updated_at (filter (\<lambda>e. car_id e = car_id t) events)) = Some (updated_at t)"
  define rows_of where "rows_of = (\<lambda>x::tracking_event. map (\<lambda>_. x)
      (filter (\<lambda>(cid, max_updated). cid = car_id x \<and> max_updated = Some (updated_at x))
        (max_updated_by_car events)))"
  have eq: "latest_rows events = concat (map rows_of events)"
    by (simp add: latest_rows_def rows_of_def)
  from a have "(car_id t, Some (updated_at t)) \<in> set (max_updated_by_car events)"
    by (simp add: max_updated_by_car_entry)
  then have "filter (\<lambda>(cid, max_updated). cid = car_id t \<and> max_updated = Some (updated_at t))
      (max_updated_by_car events) \<noteq> []"
    by (auto simp: filter_empty_conv)
  then have "t \<in> set (rows_of t)"
    unfolding rows_of_def
    by (cases "filter (\<lambda>(cid, max_updated). cid = car_id t \<and> max_updated = Some (updated_at t))
      (max_updated_by_car events)") simp_all
  moreover have "set (rows_of t) \<subseteq> set (concat (map rows_of events))"
    using a by auto
  ultimately show "t \<in> set (latest_rows events)"
    unfolding eq by (rule subsetD [rotated])
qed

lemma latest_rows_max:
  assumes "t \<in> set (latest_rows events)"
  shows "t \<in> set events \<and> (\<forall>e \<in> set events. car_id e = car_id t \<longrightarrow> updated_at e \<le> updated_at t)"
proof -
  from assms have t: "t \<in> set events"
    and m: "sql_max (map updated_at (filter (\<lambda>e. car_id e = car_id t) events)) = Some (updated_at t)"
    by (simp_all add: latest_rows_iff)
  from sql_max_in [OF m] show ?thesis
    using t by auto
qed

lemma latest_rows_cover:
  assumes "e \<in> set events"
  shows "\<exists>t \<in> set (latest_rows events). car_id t = car_id e"
proof -
  let ?group = "filter (\<lambda>t. car_id t = car_id e) events"
  have "map updated_at ?group \<noteq> []"
    using assms by (auto simp: filter_empty_conv)
  from sql_max_Some [OF this] obtain m
    where m: "sql_max (map updated_at ?group) = Some m" "m \<in> set (map updated_at ?group)"
    by blast
  then obtain t where t: "t \<in> set events" "car_id t = car_id e" "updated_at t = m"
    by auto
  then have "t \<in> set (latest_rows events)"
    using m(1) by (simp add: latest_rows_iff)
  with t show ?thesis by blast
qed

lemma latest_rows_car_ids: "car_id ` set (latest_rows events) = car_id ` set events"
  using latest_rows_cover latest_rows_iff by (fastforce simp: image_iff)

lemmas latest_tracking_defs = latest_tracking_def dict_by_car_id_def latest_rows_def
  max_updated_by_car_def sample_events_def event_a_def event_b_def event_c_def event_d_def

lemma latest_tracking_sample:
  "latest_tracking sample_events = [(1, event_c), (2, event_d)]"
  by (simp add: latest_tracking_defs AList.update.simps)

text \<open>
  SQLite fixes no order for the rows of the join; the entry of a car is a latest event of
  the car in whatever order the rows arrive.
\<close>

lemma dict_by_car_id_any_order:
  assumes "set rows = set (latest_rows events)" "e \<in> set events"
  shows "\<exists>r. map_of (dict_by_car_id rows) (car_id e) = Some r
           \<and> r \<in> set events \<and> car_id r = car_id e
           \<and> (\<forall>e' \<in> set events. car_id e' = car_id e \<longrightarrow> updated_at e' \<le> updated_at r)"
proof -
  have "car_id e \<in> fst ` set (dict_by_car_id rows)"
    using assms latest_rows_car_ids [of events] by (simp add: dict_by_car_id_keys)
  then obtain r where r: "map_of (dict_by_car_id rows) (car_id e) = Some r"
    by (metis domD dom_map_of_conv_image_fst)
  then have "r \<in> set (latest_rows events)" "car_id r = car_id e"
    using dict_by_car_id_entry [of rows "car_id e" r] assms(1) by simp_all
  with latest_rows_max [of r events] r show ?thesis
    by auto
qed

text \<open>
  C2. For every car with at least one tracking event, \<open>latest_tracking\<close> has an entry
  under the car's id; the entry is an event of that car, and no event of the car has a
  later \<open>updated_at\<close>.
\<close>

theorem latest_tracking_is_latest:
  assumes "e \<in> set events"
  shows "\<exists>r. map_of (latest_tracking events) (car_id e) = Some r
           \<and> r \<in> set events \<and> car_id r = car_id e
           \<and> (\<forall>e' \<in> set events. car_id e' = car_id e \<longrightarrow> updated_at e' \<le> updated_at r)"
proof -
  have "car_id e \<in> fst ` set (latest_tracking events)"
    using assms by (simp add: latest_tracking_def dict_by_car_id_keys latest_rows_car_ids)
  then obtain r where r: "map_of (latest_tracking events) (car_id e) = Some r"
    by (metis domD dom_map_of_conv_image_fst)
  then have "r \<in> set (latest_rows events)" "car_id r = car_id e"
    using dict_by_car_id_entry [of "latest_rows events" "car_id e" r]
    by (simp_all add: latest_tracking_def)
  with latest_rows_max [of r events] r show ?thesis
    by auto
qed

theorem latest_tracking_is_latest_witness:
  "event_a \<in> set sample_events
   \<and> map_of (latest_tracking sample_events) (car_id event_a) = Some event_c
   \<and> car_id event_c = car_id event_a
   \<and> updated_at event_a \<le> updated_at event_c
   \<and> updated_at event_b \<le> updated_at event_c"
proof -
  have h: "event_a \<in> set sample_events"
    by (simp add: sample_events_def)
  have c: "car_id event_a = 1" "car_id event_b = 1"
    by (simp_all add: event_a_def event_b_def)
  have "event_b \<in> set sample_events"
    by (simp add: sample_events_def)
  with latest_tracking_is_latest [OF h] h c show ?thesis
    by (auto simp: latest_tracking_sample)
qed

text \<open>
  C10. The result of \<open>latest_tracking\<close> has exactly one entry for each car that has an
  event, also where the join returns several rows for a car because events share the
  latest \<open>updated_at\<close>.
\<close>

theorem latest_tracking_one_entry_per_car:
  "distinct (map fst (latest_tracking events))
   \<and> set (map fst (latest_tracking events)) = car_id ` set events"
  by (simp add: latest_tracking_def dict_by_car_id_distinct dict_by_car_id_keys latest_rows_car_ids)

theorem latest_tracking_one_entry_per_car_witness:
  "latest_rows sample_events = [event_b, event_c, event_d]
   \<and> car_id event_b = car_id event_c
   \<and> map fst (latest_tracking sample_events) = [1, 2]"
  using latest_tracking_one_entry_per_car [of sample_events]
  by (simp add: latest_tracking_sample) (simp add: latest_tracking_defs)

section \<open>Identity and the decorators\<close>

lemmas state_defs = begin_request_def sample_db_def demo_admin_def ann_def ann_lead_def
  get_current_user_def execute_def flash_def truthy_int_def Let_def

lemmas handler_defs = state_defs ann_state_def admin_state_def text_defs get_or_empty_def
  url_for_index_def url_for_add_car_form_def url_for_manage_tracking_def truthy_def
  safe_int_def py_int_def int_strip_def c_isspace_def c_whitespace_def int_max_str_digits_def
  digit_of_def binds_def fits_int64_def or_zero_def next_rowid_def

lemma py_int_examples:
  "py_int ''-12'' = Some (-12)" "py_int '' +1_000 '' = Some 1000" "py_int ''007'' = Some 7"
  "py_int ''1__0'' = None" "py_int ''_1'' = None" "py_int ''1_'' = None" "py_int ''+'' = None"
  "py_int ''12a'' = None" "py_int ''0x10'' = None" "py_int [] = None"
  "py_int [CHR 0x09, CHR ''5'', CHR 0x0A] = Some 5" "py_int [CHR 0x1F, CHR ''5''] = None"
  "py_strip [CHR 0x1F, CHR ''5''] = ''5''" "py_int [CHR ''5'', CHR 0x00] = None"
  by (simp_all add: handler_defs)

lemma get_current_user_cases:
  obtains (cached) u where "g_current_user s = Some u" "get_current_user s = (u, s)"
  | (no_session) "g_current_user s = None" "\<not> truthy_int (session_user_id s)"
      "get_current_user s = (None, s\<lparr>g_current_user := Some None\<rparr>)"
  | (lookup) "g_current_user s = None" "truthy_int (session_user_id s)"
      "get_current_user s =
         (find (\<lambda>u. Some (u_id u) = session_user_id s) (users (db s)),
          s\<lparr>executed := executed s @ [Select [Users]],
            g_current_user := Some (find (\<lambda>u. Some (u_id u) = session_user_id s) (users (db s)))\<rparr>)"
  by (cases "g_current_user s"; cases "truthy_int (session_user_id s)")
     (auto simp: get_current_user_def execute_def Let_def)

lemma get_current_user_frame:
  "db (snd (get_current_user s)) = db s"
  "session_user_id (snd (get_current_user s)) = session_user_id s"
  "flashes (snd (get_current_user s)) = flashes s"
  "current_timestamp (snd (get_current_user s)) = current_timestamp s"
  by (cases s rule: get_current_user_cases; simp)+

lemma get_current_user_executed:
  "executed (snd (get_current_user s)) = executed s
   \<or> executed (snd (get_current_user s)) = executed s @ [Select [Users]]"
  by (cases s rule: get_current_user_cases) simp_all

lemma get_current_user_cached:
  "g_current_user (snd (get_current_user s)) = Some (fst (get_current_user s))"
  by (cases s rule: get_current_user_cases) simp_all

lemma get_current_user_again:
  "get_current_user (snd (get_current_user s)) = get_current_user s"
  using get_current_user_cached [of s]
  by (cases "get_current_user s") (simp add: get_current_user_def)

lemma role_required_unauthenticated:
  assumes "fst (get_current_user s) = None"
  shows "role_required roles view req s =
     (Redirect (LoginUrl (url req)), flash LoginToContinue Error (snd (get_current_user s)))"
  using assms by (simp add: role_required_def split_beta)

lemma role_required_pass:
  assumes "fst (get_current_user s) = Some u" "roles = [] \<or> u_role u \<in> set roles"
  shows "role_required roles view req s = view req (snd (get_current_user s))"
  using assms by (auto simp: role_required_def split_beta)

lemma login_required_pass:
  assumes "fst (get_current_user s) = Some u"
  shows "login_required view req s = view req (snd (get_current_user s))"
  using assms by (auto simp: login_required_def split_beta)

lemma login_required_unauthenticated:
  assumes "fst (get_current_user s) = None"
  shows "login_required view req s =
     (Redirect (LoginUrl (url req)), flash LoginToSubmitLead Error (snd (get_current_user s)))"
  using assms by (simp add: login_required_def split_beta)

subsection \<open>Row identifiers and integer parameters\<close>



lemma or_zero_fits: "fits_int64 (or_zero v) \<longleftrightarrow> binds v"
  by (cases v) (simp_all add: or_zero_def binds_def fits_int64_def)

text \<open>
  C9. When there is no current user, \<open>leads_list\<close> answers with the redirect to the
  login page that carries the requested URL as \<open>next\<close>, whatever the body of
  the handler is; the database and the session are as before, the only message flashed
  is the one of the decorator, and the only statement that may have been executed is the
  lookup of the session's user id in \<open>users\<close>: \<open>leads\<close> is neither read nor written.
\<close>

theorem leads_list_rejects_unauthenticated:
  assumes "fst (get_current_user s) = None"
  shows "leads_list req s =
           (Redirect (LoginUrl (url req)), flash LoginToContinue Error (snd (get_current_user s)))
         \<and> db (snd (leads_list req s)) = db s
         \<and> session_user_id (snd (leads_list req s)) = session_user_id s
         \<and> flashes (snd (leads_list req s)) = flashes s @ [(LoginToContinue, Error)]
         \<and> (executed (snd (leads_list req s)) = executed s
            \<or> executed (snd (leads_list req s)) = executed s @ [Select [Users]])
         \<and> (\<forall>body. role_required [''admin''] body req s = leads_list req s)"
  using get_current_user_executed [of s]
  by (simp add: leads_list_def role_required_unauthenticated [OF assms] flash_def
      get_current_user_frame)

theorem leads_list_rejects_unauthenticated_witness:
  "fst (get_current_user (begin_request sample_db None ''2024-01-03 12:00:00'')) = None
   \<and> leads_list leads_request (begin_request sample_db None ''2024-01-03 12:00:00'') =
       (Redirect (LoginUrl ''http://localhost:5001/leads''),
        (begin_request sample_db None ''2024-01-03 12:00:00'')
          \<lparr>g_current_user := Some None, flashes := [(LoginToContinue, Error)]\<rparr>)"
proof -
  have h: "fst (get_current_user (begin_request sample_db None ''2024-01-03 12:00:00'')) = None"
    by (simp add: state_defs)
  from leads_list_rejects_unauthenticated [OF h, of leads_request] h show ?thesis
    by (simp add: state_defs leads_request_def)
qed

section \<open>Leads\<close>

lemma create_lead_view_blank:
  assumes "py_strip (get_or_empty (form req) ''name'') = []
           \<or> py_strip (get_or_empty (form req) ''phone'') = []"
  shows "create_lead_view req s =
     (Redirect (Url ''/#request''), flash NameAndPhoneRequired Error s)"
  using assms by (auto simp: create_lead_view_def Let_def url_for_index_def)

lemma create_lead_view_insert:
  assumes "py_strip (get_or_empty (form req) ''name'') \<noteq> []"
      and "py_strip (get_or_empty (form req) ''phone'') \<noteq> []"
      and "get_current_user s = (Some u, s)"
      and "binds (safe_int (form req ''car_id''))" "binds (safe_int (form req ''budget''))"
  shows "create_lead_view req s =
     (Redirect (Url url_for_index),
      flash LeadSent Success
        (execute (Insert Leads)
          (s\<lparr>db := (db s)\<lparr>leads := leads (db s) @
               [\<lparr>l_id = next_rowid (leads_seq (db s)) (map l_id (leads (db s))),
                 l_name = py_strip (get_or_empty (form req) ''name''),
                 l_phone = py_strip (get_or_empty (form req) ''phone''),
                 l_email = Some (py_strip (get_or_empty (form req) ''email'')),
                 l_car_id = safe_int (form req ''car_id''),
                 preferred_brand = Some (py_strip (get_or_empty (form req) ''preferred_brand'')),
                 preferred_model = Some (py_strip (get_or_empty (form req) ''preferred_model'')),
                 l_country = form req ''preferred_country'',
                 budget = safe_int (form req ''budget''),
                 l_comment = Some (py_strip (get_or_empty (form req) ''comment'')),
                 l_created_at = current_timestamp s,
                 l_user_id = Some (u_id u)\<rparr>],
               leads_seq := next_rowid (leads_seq (db s)) (map l_id (leads (db s)))\<rparr>\<rparr>)))"
  using assms by (simp add: create_lead_view_def Let_def)

lemma create_lead_view_overflow:
  assumes "py_strip (get_or_empty (form req) ''name'') \<noteq> []"
      and "py_strip (get_or_empty (form req) ''phone'') \<noteq> []"
      and "get_current_user s = (Some u, s)"
      and "\<not> (binds (safe_int (form req ''car_id'')) \<and> binds (safe_int (form req ''budget'')))"
  shows "create_lead_view req s = (InternalServerError, s)"
  using assms by (auto simp: create_lead_view_def Let_def)

text \<open>
  C7. For an authenticated user, \<open>create_lead\<close> with a name or a phone that is blank
  after stripping flashes the validation message, redirects to the request form and
  leaves the database as it was; with both non-blank it does neither, and when the
  numeric fields can be stored the lead is appended to \<open>leads\<close>.
\<close>

theorem create_lead_requires_name_and_phone:
  "(fst (get_current_user s) = Some u
      \<and> (py_strip (get_or_empty (form req) ''name'') = []
         \<or> py_strip (get_or_empty (form req) ''phone'') = [])
    \<longrightarrow> create_lead req s =
          (Redirect (Url ''/#request''),
           flash NameAndPhoneRequired Error (snd (get_current_user s)))
        \<and> db (snd (create_lead req s)) = db s)
   \<and> (fst (get_current_user s) = Some u
      \<and> py_strip (get_or_empty (form req) ''name'') \<noteq> []
      \<and> py_strip (get_or_empty (form req) ''phone'') \<noteq> []
    \<longrightarrow> fst (create_lead req s) \<noteq> Redirect (Url ''/#request'')
        \<and> flashes (snd (create_lead req s)) \<noteq> flashes s @ [(NameAndPhoneRequired, Error)])
   \<and> (fst (get_current_user s) = Some u
      \<and> py_strip (get_or_empty (form req) ''name'') \<noteq> []
      \<and> py_strip (get_or_empty (form req) ''phone'') \<noteq> []
      \<and> binds (safe_int (form req ''car_id'')) \<and> binds (safe_int (form req ''budget''))
    \<longrightarrow> (\<exists>row. leads (db (snd (create_lead req s))) = leads (db s) @ [row]
              \<and> l_name row = py_strip (get_or_empty (form req) ''name'')
              \<and> l_phone row = py_strip (get_or_empty (form req) ''phone''))
        \<and> flashes (snd (create_lead req s)) = flashes s @ [(LeadSent, Success)])"
proof (intro conjI impI; (elim conjE)?)
  let ?s1 = "snd (get_current_user s)"
  let ?name = "py_strip (get_or_empty (form req) ''name'')"
  let ?phone = "py_strip (get_or_empty (form req) ''phone'')"
  {
    assume auth: "fst (get_current_user s) = Some u"
    then have again: "get_current_user ?s1 = (Some u, ?s1)"
      using get_current_user_again [of s] by (metis prod.collapse)
    have route: "create_lead req s = create_lead_view req ?s1"
      by (simp add: create_lead_def login_required_pass [OF auth])
    note auth again route
  } note auth = this
  {
    assume a: "fst (get_current_user s) = Some u" and b: "?name = [] \<or> ?phone = []"
    show "create_lead req s =
          (Redirect (Url ''/#request''), flash NameAndPhoneRequired Error ?s1)"
      by (simp add: auth(3) [OF a] create_lead_view_blank [OF b])
    then show "db (snd (create_lead req s)) = db s"
      by (simp add: flash_def get_current_user_frame)
  }
  {
    assume a: "fst (get_current_user s) = Some u" and n: "?name \<noteq> []" and p: "?phone \<noteq> []"
    have cases: "create_lead_view req ?s1 = (InternalServerError, ?s1)
        \<or> (fst (create_lead_view req ?s1) = Redirect (Url url_for_index)
           \<and> flashes (snd (create_lead_view req ?s1)) = flashes s @ [(LeadSent, Success)])"
    proof (cases "binds (safe_int (form req ''car_id'')) \<and> binds (safe_int (form req ''budget''))")
      case True
      then show ?thesis
        using create_lead_view_insert [OF n p auth(2) [OF a]]
        by (simp add: flash_def execute_def get_current_user_frame)
    next
      case False
      then show ?thesis
        using create_lead_view_overflow [OF n p auth(2) [OF a]] by simp
    qed
    show "fst (create_lead req s) \<noteq> Redirect (Url ''/#request'')"
      using cases by (auto simp: auth(3) [OF a] url_for_index_def)
    show "flashes (snd (create_lead req s)) \<noteq> flashes s @ [(NameAndPhoneRequired, Error)]"
      using cases by (auto simp: auth(3) [OF a] get_current_user_frame)
  }
  {
    assume a: "fst (get_current_user s) = Some u" and n: "?name \<noteq> []" and p: "?phone \<noteq> []"
      and c: "binds (safe_int (form req ''car_id''))" and b: "binds (safe_int (form req ''budget''))"
    note ins = create_lead_view_insert [OF n p auth(2) [OF a] c b]
    show "\<exists>row. leads (db (snd (create_lead req s))) = leads (db s) @ [row]
              \<and> l_name row = ?name \<and> l_phone row = ?phone"
      by (simp add: auth(3) [OF a] ins flash_def execute_def get_current_user_frame)
    show "flashes (snd (create_lead req s)) = flashes s @ [(LeadSent, Success)]"
      by (simp add: auth(3) [OF a] ins flash_def execute_def get_current_user_frame)
  }
qed

theorem create_lead_requires_name_and_phone_witness:
  "fst (get_current_user ann_state) = Some ann
   \<and> py_strip (get_or_empty (form lead_request_blank_phone) ''phone'') = []
   \<and> create_lead lead_request_blank_phone ann_state =
        (Redirect (Url ''/#request''),
         flash NameAndPhoneRequired Error (snd (get_current_user ann_state)))
   \<and> leads (db (snd (create_lead lead_request_blank_phone ann_state))) = [ann_lead]
   \<and> py_strip (get_or_empty (form lead_request_words) ''name'') = ''Ann''
   \<and> py_strip (get_or_empty (form lead_request_words) ''phone'') = ''+7 900 111 22 33''
   \<and> flashes (snd (create_lead lead_request_words ann_state)) = [(LeadSent, Success)]
   \<and> map l_name (leads (db (snd (create_lead lead_request_words ann_state)))) = [''Ann'', ''Ann'']"
proof -
  have auth: "fst (get_current_user ann_state) = Some ann"
    by (simp add: handler_defs)
  have blank: "py_strip (get_or_empty (form lead_request_blank_phone) ''phone'') = []"
    by (simp add: lead_request_blank_phone_def handler_defs)
  have words: "py_strip (get_or_empty (form lead_request_words) ''name'') = ''Ann''"
    "py_strip (get_or_empty (form lead_request_words) ''phone'') = ''+7 900 111 22 33''"
    "binds (safe_int (form lead_request_words ''car_id''))"
    "binds (safe_int (form lead_request_words ''budget''))"
    by (simp_all add: lead_request_words_def handler_defs)
  have before: "leads (db ann_state) = [ann_lead]" "flashes ann_state = []"
    by (simp_all add: handler_defs)
  from create_lead_requires_name_and_phone [of ann_state ann lead_request_blank_phone]
    auth blank before
  have 1: "create_lead lead_request_blank_phone ann_state =
        (Redirect (Url ''/#request''),
         flash NameAndPhoneRequired Error (snd (get_current_user ann_state)))"
    "leads (db (snd (create_lead lead_request_blank_phone ann_state))) = [ann_lead]"
    by (simp_all add: flash_def get_current_user_frame)
  from create_lead_requires_name_and_phone [of ann_state ann lead_request_words]
    auth words before
  have 2: "flashes (snd (create_lead lead_request_words ann_state)) = [(LeadSent, Success)]"
    "\<exists>row. leads (db (snd (create_lead lead_request_words ann_state))) = [ann_lead, row]
       \<and> l_name row = ''Ann''"
    by auto
  then have "map l_name (leads (db (snd (create_lead lead_request_words ann_state))))
      = [''Ann'', ''Ann'']"
    by (auto simp: ann_lead_def)
  with auth blank words 1 2 show ?thesis
    by simp
qed

section \<open>Adding a car\<close>

lemma add_car_view_insert:
  assumes "\<forall>field \<in> set [''brand'', ''model'', ''year'', ''price'', ''country''].
             truthy (form req field)"
      and "binds (safe_int (form req ''year''))" "binds (safe_int (form req ''price''))"
          "binds (safe_int (form req ''mileage''))"
  shows "add_car_view req s =
     (Redirect (Url url_for_index),
      flash CarAdded Success
        (execute (Insert Cars)
          (s\<lparr>db := (db s)\<lparr>cars := cars (db s) @
               [\<lparr>c_id = next_rowid (cars_seq (db s)) (map c_id (cars (db s))),
                 brand = py_strip (get_or_empty (form req) ''brand''),
                 model = py_strip (get_or_empty (form req) ''model''),
                 year = or_zero (safe_int (form req ''year'')),
                 price = or_zero (safe_int (form req ''price'')),
                 mileage = Some (or_zero (safe_int (form req ''mileage''))),
                 fuel_type = form req ''fuel_type'',
                 country = get_or_empty (form req) ''country'',
                 image_url = Some (get_or_empty (form req) ''image_url''),
                 description = Some (get_or_empty (form req) ''description'')\<rparr>],
               cars_seq := next_rowid (cars_seq (db s)) (map c_id (cars (db s)))\<rparr>\<rparr>)))"
proof -
  have "filter (\<lambda>field. \<not> truthy (form req field))
      [''brand'', ''model'', ''year'', ''price'', ''country''] = []"
    using assms(1) by (simp add: filter_empty_conv)
  then show ?thesis
    using assms(2-) by (simp add: add_car_view_def Let_def or_zero_fits)
qed

lemma add_car_view_overflow:
  assumes "\<forall>field \<in> set [''brand'', ''model'', ''year'', ''price'', ''country''].
             truthy (form req field)"
      and "\<not> (binds (safe_int (form req ''year'')) \<and> binds (safe_int (form req ''price''))
             \<and> binds (safe_int (form req ''mileage'')))"
  shows "add_car_view req s = (InternalServerError, s)"
proof -
  have "filter (\<lambda>field. \<not> truthy (form req field))
      [''brand'', ''model'', ''year'', ''price'', ''country''] = []"
    using assms(1) by (simp add: filter_empty_conv)
  then show ?thesis
    using assms(2) by (simp add: add_car_view_def Let_def or_zero_fits)
qed

text \<open>
  C8, as stated, fails: a request to add a car whose \<open>year\<close> does not parse, from a
  caller who may add cars and with every required field present, is answered with an
  error and no car is inserted, because its \<open>price\<close> is 2^63.
\<close>

theorem add_car_unparsable_year_not_inserted_counterexample:
  "fst (get_current_user admin_state) = Some demo_admin
   \<and> safe_int (form add_car_request_overflow ''year'') = None
   \<and> safe_int (form add_car_request_overflow ''price'') = Some 9223372036854775808
   \<and> add_car add_car_request_overflow admin_state
       = (InternalServerError, snd (get_current_user admin_state))
   \<and> cars (db (snd (add_car add_car_request_overflow admin_state))) = cars (db admin_state)"
proof -
  have admin: "fst (get_current_user admin_state) = Some demo_admin"
    "u_role demo_admin = ''admin''"
    by (simp_all add: handler_defs)
  have form: "\<forall>field \<in> set [''brand'', ''model'', ''year'', ''price'', ''country''].
      truthy (form add_car_request_overflow field)"
    "safe_int (form add_car_request_overflow ''year'') = None"
    "safe_int (form add_car_request_overflow ''price'') = Some 9223372036854775808"
    by (simp_all add: add_car_request_overflow_def handler_defs)
  have "\<not> binds (safe_int (form add_car_request_overflow ''price''))"
    by (simp add: form(3) binds_def fits_int64_def)
  then have "add_car_view add_car_request_overflow (snd (get_current_user admin_state))
      = (InternalServerError, snd (get_current_user admin_state))"
    using form(1) by (intro add_car_view_overflow) simp_all
  then have "add_car add_car_request_overflow admin_state
      = (InternalServerError, snd (get_current_user admin_state))"
    using admin by (simp add: add_car_def role_required_pass [OF admin(1)])
  with admin form show ?thesis
    by (simp add: get_current_user_frame)
qed

text \<open>
  C8, amended. For a caller who may add cars and a form with every required field
  present, whose numbers that parse fit the store's 64-bit integers, the car of the
  request is inserted, with 0 for a \<open>year\<close>, \<open>price\<close> or \<open>mileage\<close> that does not parse
  as an integer and the parsed number otherwise. For an authenticated caller and a lead
  with name and phone, under the same condition on \<open>car_id\<close> and \<open>budget\<close>, the lead of
  the request is inserted, with NULL for a \<open>car_id\<close> or \<open>budget\<close> that does not parse.
\<close>

theorem unparsable_numbers_are_defaulted:
  "(fst (get_current_user s) = Some u \<and> u_role u \<in> {''admin'', ''moderator''}
      \<and> (\<forall>field \<in> set [''brand'', ''model'', ''year'', ''price'', ''country''].
            truthy (form req field))
      \<and> binds (safe_int (form req ''year'')) \<and> binds (safe_int (form req ''price''))
      \<and> binds (safe_int (form req ''mileage''))
    \<longrightarrow> add_car req s =
          (Redirect (Url url_for_index),
           (snd (get_current_user s))
             \<lparr>db := (db s)\<lparr>cars := cars (db s) @
                  [\<lparr>c_id = next_rowid (cars_seq (db s)) (map c_id (cars (db s))),
                    brand = py_strip (get_or_empty (form req) ''brand''),
                    model = py_strip (get_or_empty (form req) ''model''),
                    year = (case safe_int (form req ''year'') of None \<Rightarrow> 0 | Some n \<Rightarrow> n),
                    price = (case safe_int (form req ''price'') of None \<Rightarrow> 0 | Some n \<Rightarrow> n),
                    mileage =
                      Some (case safe_int (form req ''mileage'') of None \<Rightarrow> 0 | Some n \<Rightarrow> n),
                    fuel_type = form req ''fuel_type'',
                    country = get_or_empty (form req) ''country'',
                    image_url = Some (get_or_empty (form req) ''image_url''),
                    description = Some (get_or_empty (form req) ''description'')\<rparr>],
                  cars_seq := next_rowid (cars_seq (db s)) (map c_id (cars (db s)))\<rparr>,
               executed := executed (snd (get_current_user s)) @ [Insert Cars],
               flashes := flashes s @ [(CarAdded, Success)]\<rparr>))
   \<and> (fst (get_current_user s) = Some u
      \<and> py_strip (get_or_empty (form req) ''name'') \<noteq> []
      \<and> py_strip (get_or_empty (form req) ''phone'') \<noteq> []
      \<and> binds (safe_int (form req ''car_id'')) \<and> binds (safe_int (form req ''budget''))
    \<longrightarrow> create_lead req s =
          (Redirect (Url url_for_index),
           (snd (get_current_user s))
             \<lparr>db := (db s)\<lparr>leads := leads (db s) @
                  [\<lparr>l_id = next_rowid (leads_seq (db s)) (map l_id (leads (db s))),
                    l_name = py_strip (get_or_empty (form req) ''name''),
                    l_phone = py_strip (get_or_empty (form req) ''phone''),
                    l_email = Some (py_strip (get_or_empty (form req) ''email'')),
                    l_car_id = safe_int (form req ''car_id''),
                    preferred_brand =
                      Some (py_strip (get_or_empty (form req) ''preferred_brand'')),
                    preferred_model =
                      Some (py_strip (get_or_empty (form req) ''preferred_model'')),
                    l_country = form req ''preferred_country'',
                    budget = safe_int (form req ''budget''),
                    l_comment = Some (py_strip (get_or_empty (form req) ''comment'')),
                    l_created_at = current_timestamp s,
                    l_user_id = Some (u_id u)\<rparr>],
                  leads_seq := next_rowid (leads_seq (db s)) (map l_id (leads (db s)))\<rparr>,
               executed := executed (snd (get_current_user s)) @ [Insert Leads],
               flashes := flashes s @ [(LeadSent, Success)]\<rparr>))"
proof (intro conjI impI; (elim conjE)?)
  let ?s1 = "snd (get_current_user s)"
  {
    assume auth: "fst (get_current_user s) = Some u"
      and role: "u_role u \<in> {''admin'', ''moderator''}"
      and req: "\<forall>field \<in> set [''brand'', ''model'', ''year'', ''price'', ''country''].
            truthy (form req field)"
      and b: "binds (safe_int (form req ''year''))" "binds (safe_int (form req ''price''))"
          "binds (safe_int (form req ''mileage''))"
    have route: "add_car req s = add_car_view req ?s1"
      using role by (simp add: add_car_def role_required_pass [OF auth])
    have z: "or_zero v = (case v of None \<Rightarrow> 0 | Some n \<Rightarrow> n)" for v
      by (simp add: or_zero_def)
    show "add_car req s =
          (Redirect (Url url_for_index),
           ?s1
             \<lparr>db := (db s)\<lparr>cars := cars (db s) @
                  [\<lparr>c_id = next_rowid (cars_seq (db s)) (map c_id (cars (db s))),
                    brand = py_strip (get_or_empty (form req) ''brand''),
                    model = py_strip (get_or_empty (form req) ''model''),
                    year = (case safe_int (form req ''year'') of None \<Rightarrow> 0 | Some n \<Rightarrow> n),
                    price = (case safe_int (form req ''price'') of None \<Rightarrow> 0 | Some n \<Rightarrow> n),
                    mileage =
                      Some (case safe_int (form req ''mileage'') of None \<Rightarrow> 0 | Some n \<Rightarrow> n),
                    fuel_type = form req ''fuel_type'',
                    country = get_or_empty (form req) ''country'',
                    image_url = Some (get_or_empty (form req) ''image_url''),
                    description = Some (get_or_empty (form req) ''description'')\<rparr>],
                  cars_seq := next_rowid (cars_seq (db s)) (map c_id (cars (db s)))\<rparr>,
               executed := executed ?s1 @ [Insert Cars],
               flashes := flashes s @ [(CarAdded, Success)]\<rparr>)"
      by (simp add: route add_car_view_insert [OF req b] z flash_def execute_def
          get_current_user_frame)
  }
  {
    assume auth: "fst (get_current_user s) = Some u"
      and n: "py_strip (get_or_empty (form req) ''name'') \<noteq> []"
      and p: "py_strip (get_or_empty (form req) ''phone'') \<noteq> []"
      and c: "binds (safe_int (form req ''car_id''))" and b: "binds (safe_int (form req ''budget''))"
    have again: "get_current_user ?s1 = (Some u, ?s1)"
      using auth get_current_user_again [of s] by (metis prod.collapse)
    have route: "create_lead req s = create_lead_view req ?s1"
      by (simp add: create_lead_def login_required_pass [OF auth])
    show "create_lead req s =
          (Redirect (Url url_for_index),
           ?s1
             \<lparr>db := (db s)\<lparr>leads := leads (db s) @
                  [\<lparr>l_id = next_rowid (leads_seq (db s)) (map l_id (leads (db s))),
                    l_name = py_strip (get_or_empty (form req) ''name''),
                    l_phone = py_strip (get_or_empty (form req) ''phone''),
                    l_email = Some (py_strip (get_or_empty (form req) ''email'')),
                    l_car_id = safe_int (form req ''car_id''),
                    preferred_brand =
                      Some (py_strip (get_or_empty (form req) ''preferred_brand'')),
                    preferred_model =
                      Some (py_strip (get_or_empty (form req) ''preferred_model'')),
                    l_country = form req ''preferred_country'',
                    budget = safe_int (form req ''budget''),
                    l_comment = Some (py_strip (get_or_empty (form req) ''comment'')),
                    l_created_at = current_timestamp s,
                    l_user_id = Some (u_id u)\<rparr>],
                  leads_seq := next_rowid (leads_seq (db s)) (map l_id (leads (db s)))\<rparr>,
               executed := executed ?s1 @ [Insert Leads],
               flashes := flashes s @ [(LeadSent, Success)]\<rparr>)"
      by (simp add: route create_lead_view_insert [OF n p again c b] flash_def execute_def
          get_current_user_frame)
  }
qed

theorem unparsable_numbers_are_defaulted_witness:
  "fst (get_current_user admin_state) = Some demo_admin
   \<and> safe_int (form add_car_request ''year'') = None
   \<and> safe_int (form add_car_request ''price'') = Some 15000
   \<and> safe_int (form add_car_request ''mileage'') = None
   \<and> cars (db (snd (add_car add_car_request admin_state))) =
       [kia_rio, byd_han,
        \<lparr>c_id = 3, brand = ''Kia'', model = ''Rio'', year = 0, price = 15000,
          mileage = Some 0, fuel_type = None, country = ''Korea'', image_url = Some [],
          description = Some []\<rparr>]
   \<and> fst (get_current_user ann_state) = Some ann
   \<and> safe_int (form lead_request_mixed ''car_id'') = Some 2
   \<and> safe_int (form lead_request_mixed ''budget'') = None
   \<and> leads (db (snd (create_lead lead_request_mixed ann_state))) =
       [ann_lead,
        \<lparr>l_id = 2, l_name = ''Ann'', l_phone = ''+7 900 111 22 33'', l_email = Some [],
          l_car_id = Some 2, preferred_brand = Some [], preferred_model = Some [],
          l_country = None, budget = None, l_comment = Some [],
          l_created_at = ''2024-01-03 12:00:00'', l_user_id = Some 2\<rparr>]"
proof -
  have admin: "fst (get_current_user admin_state) = Some demo_admin"
    "u_role demo_admin \<in> {''admin'', ''moderator''}"
    by (simp_all add: handler_defs)
  have car: "\<forall>field \<in> set [''brand'', ''model'', ''year'', ''price'', ''country''].
      truthy (form add_car_request field)"
    "safe_int (form add_car_request ''year'') = None"
    "safe_int (form add_car_request ''price'') = Some 15000"
    "safe_int (form add_car_request ''mileage'') = None"
    by (simp_all add: add_car_request_def handler_defs)
  have car_b: "binds (safe_int (form add_car_request ''year''))"
    "binds (safe_int (form add_car_request ''price''))"
    "binds (safe_int (form add_car_request ''mileage''))"
    by (simp_all add: car binds_def fits_int64_def)
  have car_fields: "py_strip (get_or_empty (form add_car_request) ''brand'') = ''Kia''"
    "py_strip (get_or_empty (form add_car_request) ''model'') = ''Rio''"
    "form add_car_request ''fuel_type'' = None"
    "get_or_empty (form add_car_request) ''country'' = ''Korea''"
    "get_or_empty (form add_car_request) ''image_url'' = []"
    "get_or_empty (form add_car_request) ''description'' = []"
    by (simp_all add: add_car_request_def handler_defs)
  have before: "cars (db admin_state) = [kia_rio, byd_han]"
    "next_rowid (cars_seq (db admin_state)) (map c_id (cars (db admin_state))) = 3"
    "leads (db ann_state) = [ann_lead]"
    "next_rowid (leads_seq (db ann_state)) (map l_id (leads (db ann_state))) = 2"
    "current_timestamp ann_state = ''2024-01-03 12:00:00''"
    by (simp_all add: handler_defs kia_rio_def byd_han_def ann_lead_def)
  have auth: "fst (get_current_user ann_state) = Some ann" "u_id ann = 2"
    by (simp_all add: handler_defs)
  have lead: "py_strip (get_or_empty (form lead_request_mixed) ''name'') = ''Ann''"
    "py_strip (get_or_empty (form lead_request_mixed) ''phone'') = ''+7 900 111 22 33''"
    "py_strip (get_or_empty (form lead_request_mixed) ''email'') = []"
    "py_strip (get_or_empty (form lead_request_mixed) ''preferred_brand'') = []"
    "py_strip (get_or_empty (form lead_request_mixed) ''preferred_model'') = []"
    "py_strip (get_or_empty (form lead_request_mixed) ''comment'') = []"
    "form lead_request_mixed ''preferred_country'' = None"
    "safe_int (form lead_request_mixed ''car_id'') = Some 2"
    "safe_int (form lead_request_mixed ''budget'') = None"
    by (simp_all add: lead_request_mixed_def handler_defs)
  have lead_b: "binds (safe_int (form lead_request_mixed ''car_id''))"
    "binds (safe_int (form lead_request_mixed ''budget''))"
    by (simp_all add: lead binds_def fits_int64_def)
  note inst1 = unparsable_numbers_are_defaulted [of admin_state demo_admin add_car_request,
      THEN conjunct1, rule_format, OF conjI [OF admin(1) conjI [OF admin(2)
        conjI [OF car(1) conjI [OF car_b(1) conjI [OF car_b(2) car_b(3)]]]]]]
  have 1: "cars (db (snd (add_car add_car_request admin_state))) =
       [kia_rio, byd_han,
        \<lparr>c_id = 3, brand = ''Kia'', model = ''Rio'', year = 0, price = 15000,
          mileage = Some 0, fuel_type = None, country = ''Korea'', image_url = Some [],
          description = Some []\<rparr>]"
    unfolding inst1 before(2) by (simp add: car car_fields before(1))
  have nb: "py_strip (get_or_empty (form lead_request_mixed) ''name'') \<noteq> []"
    "py_strip (get_or_empty (form lead_request_mixed) ''phone'') \<noteq> []"
    by (simp_all add: lead)
  note inst2 = unparsable_numbers_are_defaulted [of ann_state ann lead_request_mixed,
      THEN conjunct2, rule_format, OF conjI [OF auth(1) conjI [OF nb(1)
        conjI [OF nb(2) conjI [OF lead_b(1) lead_b(2)]]]]]
  have 2: "leads (db (snd (create_lead lead_request_mixed ann_state))) =
       [ann_lead,
        \<lparr>l_id = 2, l_name = ''Ann'', l_phone = ''+7 900 111 22 33'', l_email = Some [],
          l_car_id = Some 2, preferred_brand = Some [], preferred_model = Some [],
          l_country = None, budget = None, l_comment = Some [],
          l_created_at = ''2024-01-03 12:00:00'', l_user_id = Some 2\<rparr>]"
    unfolding inst2 before(4) by (simp add: lead auth(2) before(3,5))
  from admin(1) car(2-4) auth(1) lead(8,9) 1 2 show ?thesis
    by simp
qed

section \<open>Recording a tracking event\<close>

lemma manage_tracking_view_reject:
  assumes "request_method req = POST"
      and "\<not> truthy_int (safe_int (form req ''car_id''))
           \<or> py_strip (get_or_empty (form req) ''status'') = []
           \<or> py_strip (get_or_empty (form req) ''location'') = []"
  shows "manage_tracking_view req s =
     (Redirect (Url url_for_manage_tracking), flash ChooseCarStatusLocation Error s)"
  using assms by (auto simp: manage_tracking_view_def Let_def)

lemma manage_tracking_view_insert:
  assumes "request_method req = POST"
      and "safe_int (form req ''car_id'') = Some n" "n \<noteq> 0" "fits_int64 n"
      and "py_strip (get_or_empty (form req) ''status'') \<noteq> []"
      and "py_strip (get_or_empty (form req) ''location'') \<noteq> []"
  shows "manage_tracking_view req s =
     (Redirect (Url url_for_manage_tracking),
      flash TrackingUpdated Success
        (execute (Insert TrackingEvents)
          (s\<lparr>db := (db s)\<lparr>tracking_events := tracking_events (db s) @
               [\<lparr>t_id = next_rowid (tracking_events_seq (db s))
                           (map t_id (tracking_events (db s))),
                 car_id = n,
                 status = py_strip (get_or_empty (form req) ''status''),
                 location = py_strip (get_or_empty (form req) ''location''),
                 eta = Some (py_strip (get_or_empty (form req) ''eta'')),
                 comment = Some (py_strip (get_or_empty (form req) ''comment'')),
                 updated_at = current_timestamp s\<rparr>],
               tracking_events_seq := next_rowid (tracking_events_seq (db s))
                                        (map t_id (tracking_events (db s)))\<rparr>\<rparr>)))"
  using assms by (simp add: manage_tracking_view_def Let_def truthy_int_def)

lemma manage_tracking_view_overflow:
  assumes "request_method req = POST"
      and "safe_int (form req ''car_id'') = Some n" "n \<noteq> 0" "\<not> fits_int64 n"
      and "py_strip (get_or_empty (form req) ''status'') \<noteq> []"
      and "py_strip (get_or_empty (form req) ''location'') \<noteq> []"
  shows "manage_tracking_view req s = (InternalServerError, s)"
  using assms by (simp add: manage_tracking_view_def Let_def truthy_int_def)

text \<open>
  C3, as stated, fails: for the non-blank \<open>car_id\<close> "abc", with status and location
  given, a moderator's or admin's POST is answered with the validation message, and no
  event is appended.
\<close>

theorem manage_tracking_unparsable_car_id_counterexample:
  "py_strip (get_or_empty (form tracking_request_abc) ''car_id'') = ''abc''
   \<and> py_strip (get_or_empty (form tracking_request_abc) ''status'') = ''At sea''
   \<and> py_strip (get_or_empty (form tracking_request_abc) ''location'') = ''Yellow Sea''
   \<and> fst (get_current_user admin_state) = Some demo_admin
   \<and> manage_tracking tracking_request_abc admin_state =
        (Redirect (Url ''/tracking/manage''),
         admin_state\<lparr>g_current_user := Some (Some demo_admin),
                      flashes := [(ChooseCarStatusLocation, Error)],
                      executed := [Select [Users]]\<rparr>)
   \<and> tracking_events (db (snd (manage_tracking tracking_request_abc admin_state)))
        = tracking_events (db admin_state)"
  by (simp add: manage_tracking_def role_required_def manage_tracking_view_def
      tracking_request_abc_def handler_defs)

text \<open>
  C3, amended. For a caller who may manage tracking, a POST is rejected with the
  validation message exactly when \<open>car_id\<close> is missing, does not parse as an integer or
  is 0, or the status or the location is blank after stripping; the database is then
  unchanged. Otherwise, when \<open>car_id\<close> fits the store's 64-bit integers, one event is
  appended with the stripped fields and the store's current timestamp.
\<close>

theorem manage_tracking_validation:
  "(fst (get_current_user s) = Some u \<and> u_role u \<in> {''admin'', ''moderator''}
      \<and> request_method req = POST
    \<longrightarrow> (flashes (snd (manage_tracking req s)) = flashes s @ [(ChooseCarStatusLocation, Error)]
         \<longleftrightarrow> safe_int (form req ''car_id'') = None \<or> safe_int (form req ''car_id'') = Some 0
             \<or> py_strip (get_or_empty (form req) ''status'') = []
             \<or> py_strip (get_or_empty (form req) ''location'') = []))
   \<and> (fst (get_current_user s) = Some u \<and> u_role u \<in> {''admin'', ''moderator''}
      \<and> request_method req = POST
      \<and> (safe_int (form req ''car_id'') = None \<or> safe_int (form req ''car_id'') = Some 0
          \<or> py_strip (get_or_empty (form req) ''status'') = []
          \<or> py_strip (get_or_empty (form req) ''location'') = [])
    \<longrightarrow> fst (manage_tracking req s) = Redirect (Url url_for_manage_tracking)
        \<and> db (snd (manage_tracking req s)) = db s)
   \<and> (fst (get_current_user s) = Some u \<and> u_role u \<in> {''admin'', ''moderator''}
      \<and> request_method req = POST
      \<and> safe_int (form req ''car_id'') = Some n \<and> n \<noteq> 0 \<and> fits_int64 n
      \<and> py_strip (get_or_empty (form req) ''status'') \<noteq> []
      \<and> py_strip (get_or_empty (form req) ''location'') \<noteq> []
    \<longrightarrow> fst (manage_tracking req s) = Redirect (Url url_for_manage_tracking)
        \<and> flashes (snd (manage_tracking req s)) = flashes s @ [(TrackingUpdated, Success)]
        \<and> tracking_events (db (snd (manage_tracking req s))) =
            tracking_events (db s) @
              [\<lparr>t_id = next_rowid (tracking_events_seq (db s)) (map t_id (tracking_events (db s))),
                car_id = n,
                status = py_strip (get_or_empty (form req) ''status''),
                location = py_strip (get_or_empty (form req) ''location''),
                eta = Some (py_strip (get_or_empty (form req) ''eta'')),
                comment = Some (py_strip (get_or_empty (form req) ''comment'')),
                updated_at = current_timestamp s\<rparr>])"
proof -
  let ?s1 = "snd (get_current_user s)"
  let ?bad = "safe_int (form req ''car_id'') = None \<or> safe_int (form req ''car_id'') = Some 0
             \<or> py_strip (get_or_empty (form req) ''status'') = []
             \<or> py_strip (get_or_empty (form req) ''location'') = []"
  have bad_iff: "?bad \<longleftrightarrow> \<not> truthy_int (safe_int (form req ''car_id''))
           \<or> py_strip (get_or_empty (form req) ''status'') = []
           \<or> py_strip (get_or_empty (form req) ''location'') = []"
    by (cases "safe_int (form req ''car_id'')") (auto simp: truthy_int_def)
  {
    assume auth: "fst (get_current_user s) = Some u"
      and role: "u_role u \<in> {''admin'', ''moderator''}"
      and post: "request_method req = POST"
    have route: "manage_tracking req s = manage_tracking_view req ?s1"
      using role by (simp add: manage_tracking_def role_required_pass [OF auth])
    have reject: "manage_tracking req s =
        (Redirect (Url url_for_manage_tracking), flash ChooseCarStatusLocation Error ?s1)"
      if "?bad"
      using that manage_tracking_view_reject [OF post, of ?s1] bad_iff by (simp add: route)
    have insert: "manage_tracking req s =
      (Redirect (Url url_for_manage_tracking),
      flash TrackingUpdated Success
        (execute (Insert TrackingEvents)
          (?s1\<lparr>db := (db ?s1)\<lparr>tracking_events := tracking_events (db ?s1) @
               [\<lparr>t_id = next_rowid (tracking_events_seq (db ?s1))
                           (map t_id (tracking_events (db ?s1))),
                 car_id = m,
                 status = py_strip (get_or_empty (form req) ''status''),
                 location = py_strip (get_or_empty (form req) ''location''),
                 eta = Some (py_strip (get_or_empty (form req) ''eta'')),
                 comment = Some (py_strip (get_or_empty (form req) ''comment'')),
                 updated_at = current_timestamp ?s1\<rparr>],
               tracking_events_seq := next_rowid (tracking_events_seq (db ?s1))
                                        (map t_id (tracking_events (db ?s1)))\<rparr>\<rparr>)))"
      if "safe_int (form req ''car_id'') = Some m" "m \<noteq> 0" "fits_int64 m"
        "py_strip (get_or_empty (form req) ''status'') \<noteq> []"
        "py_strip (get_or_empty (form req) ''location'') \<noteq> []" for m
      using manage_tracking_view_insert [OF post that, of ?s1] by (simp add: route)
    have overflow: "manage_tracking req s = (InternalServerError, ?s1)"
      if "safe_int (form req ''car_id'') = Some m" "m \<noteq> 0" "\<not> fits_int64 m"
        "py_strip (get_or_empty (form req) ''status'') \<noteq> []"
        "py_strip (get_or_empty (form req) ''location'') \<noteq> []" for m
      using manage_tracking_view_overflow [OF post that, of ?s1] by (simp add: route)
    have iff: "flashes (snd (manage_tracking req s)) = flashes s @ [(ChooseCarStatusLocation, Error)]
         \<longleftrightarrow> ?bad"
    proof (cases ?bad)
      case True
      then show ?thesis
        using reject by (simp add: flash_def get_current_user_frame)
    next
      case False
      then obtain m where m: "safe_int (form req ''car_id'') = Some m" "m \<noteq> 0"
        "py_strip (get_or_empty (form req) ''status'') \<noteq> []"
        "py_strip (get_or_empty (form req) ''location'') \<noteq> []"
        by auto
      show ?thesis
      proof (cases "fits_int64 m")
        case True
        with insert [OF m(1,2) True m(3,4)] False show ?thesis
          by (simp add: flash_def execute_def get_current_user_frame)
      next
        case nofit: False
        with overflow [OF m(1,2) nofit m(3,4)] False show ?thesis
          by (simp add: get_current_user_frame)
      qed
    qed
    note reject insert iff
  } note main = this
  show ?thesis
  proof (intro conjI impI; (elim conjE)?)
    assume a: "fst (get_current_user s) = Some u" "u_role u \<in> {''admin'', ''moderator''}"
      "request_method req = POST"
    show "flashes (snd (manage_tracking req s)) = flashes s @ [(ChooseCarStatusLocation, Error)]
         \<longleftrightarrow> ?bad"
      by (rule main(3) [OF a])
  next
    assume a: "fst (get_current_user s) = Some u" "u_role u \<in> {''admin'', ''moderator''}"
      "request_method req = POST" and b: ?bad
    show "fst (manage_tracking req s) = Redirect (Url url_for_manage_tracking)"
      by (simp add: main(1) [OF a b])
    show "db (snd (manage_tracking req s)) = db s"
      by (simp add: main(1) [OF a b] flash_def get_current_user_frame)
  next
    assume a: "fst (get_current_user s) = Some u" "u_role u \<in> {''admin'', ''moderator''}"
      "request_method req = POST"
      and m: "safe_int (form req ''car_id'') = Some n" "n \<noteq> 0" "fits_int64 n"
        "py_strip (get_or_empty (form req) ''status'') \<noteq> []"
        "py_strip (get_or_empty (form req) ''location'') \<noteq> []"
    note ins = main(2) [OF a m]
    show "fst (manage_tracking req s) = Redirect (Url url_for_manage_tracking)"
      by (simp add: ins)
    show "flashes (snd (manage_tracking req s)) = flashes s @ [(TrackingUpdated, Success)]"
      by (simp add: ins flash_def execute_def get_current_user_frame)
    show "tracking_events (db (snd (manage_tracking req s))) =
            tracking_events (db s) @
              [\<lparr>t_id = next_rowid (tracking_events_seq (db s)) (map t_id (tracking_events (db s))),
                car_id = n,
                status = py_strip (get_or_empty (form req) ''status''),
                location = py_strip (get_or_empty (form req) ''location''),
                eta = Some (py_strip (get_or_empty (form req) ''eta'')),
                comment = Some (py_strip (get_or_empty (form req) ''comment'')),
                updated_at = current_timestamp s\<rparr>]"
      by (simp add: ins flash_def execute_def get_current_user_frame)
  qed
qed

theorem manage_tracking_validation_witness:
  "fst (get_current_user admin_state) = Some demo_admin
   \<and> request_method tracking_request_abc = POST
   \<and> safe_int (form tracking_request_abc ''car_id'') = None
   \<and> flashes (snd (manage_tracking tracking_request_abc admin_state))
        = [(ChooseCarStatusLocation, Error)]
   \<and> db (snd (manage_tracking tracking_request_abc admin_state)) = sample_db
   \<and> safe_int (form tracking_request_two ''car_id'') = Some 2
   \<and> flashes (snd (manage_tracking tracking_request_two admin_state))
        = [(TrackingUpdated, Success)]
   \<and> tracking_events (db (snd (manage_tracking tracking_request_two admin_state))) =
        sample_events @
          [\<lparr>t_id = 5, car_id = 2, status = ''Customs'', location = ''Vladivostok'',
            eta = Some ''5 days'', comment = Some [], updated_at = ''2024-01-03 12:00:00''\<rparr>]"
proof -
  have admin: "fst (get_current_user admin_state) = Some demo_admin"
    "u_role demo_admin = ''admin''"
    by (simp_all add: handler_defs)
  have abc: "request_method tracking_request_abc = POST"
    "safe_int (form tracking_request_abc ''car_id'') = None"
    by (simp_all add: tracking_request_abc_def handler_defs)
  have two: "request_method tracking_request_two = POST"
    "safe_int (form tracking_request_two ''car_id'') = Some 2" "(2::int) \<noteq> 0" "fits_int64 2"
    "py_strip (get_or_empty (form tracking_request_two) ''status'') = ''Customs''"
    "py_strip (get_or_empty (form tracking_request_two) ''location'') = ''Vladivostok''"
    "py_strip (get_or_empty (form tracking_request_two) ''eta'') = ''5 days''"
    "py_strip (get_or_empty (form tracking_request_two) ''comment'') = []"
    by (simp_all add: tracking_request_two_def handler_defs)
  have before: "db admin_state = sample_db" "flashes admin_state = []"
    "current_timestamp admin_state = ''2024-01-03 12:00:00''"
    "tracking_events sample_db = sample_events"
    "next_rowid (tracking_events_seq sample_db) (map t_id (tracking_events sample_db)) = 5"
    by (simp_all add: handler_defs latest_tracking_defs)
  from manage_tracking_validation [of admin_state demo_admin tracking_request_abc]
    admin abc before
  have 1: "flashes (snd (manage_tracking tracking_request_abc admin_state))
        = [(ChooseCarStatusLocation, Error)]"
    "db (snd (manage_tracking tracking_request_abc admin_state)) = sample_db"
    by simp_all
  from manage_tracking_validation [of admin_state demo_admin tracking_request_two 2]
    admin two before
  have 2: "flashes (snd (manage_tracking tracking_request_two admin_state))
        = [(TrackingUpdated, Success)]"
    "tracking_events (db (snd (manage_tracking tracking_request_two admin_state))) =
        sample_events @
          [\<lparr>t_id = 5, car_id = 2, status = ''Customs'', location = ''Vladivostok'',
            eta = Some ''5 days'', comment = Some [], updated_at = ''2024-01-03 12:00:00''\<rparr>]"
    by simp_all
  from admin abc two 1 2 show ?thesis
    by simp
qed

section \<open>Registration\<close>











end
